theory Spec2Isabelle
  imports Main
begin

section \<open>Docker Registry API v2 client: model of \<open>lib/registry-client-v2.js\<close>\<close>

text \<open>
  JavaScript strings and Node buffers are both modelled as \<open>string\<close> (a list of 8-bit
  characters): a buffer is its bytes, a JavaScript string is its UTF-8 bytes, so that
  \<open>new Buffer(s, 'utf8')\<close> is the identity. A value that may be \<open>undefined\<close> is an
  \<open>option\<close>. A JavaScript condition \<open>if (s)\<close> on an optional string holds when the
  string is defined and not empty.
\<close>

definition truthy :: "string option \<Rightarrow> bool" where
  "truthy v = (case v of None \<Rightarrow> False | Some s \<Rightarrow> s \<noteq> [])"

subsection \<open>Base64, as \<open>buffer.toString('base64')\<close> produces it\<close>

definition b64_alphabet :: string where
  "b64_alphabet = ''ABCDEFGHIJKLMNOPQRSTUVWXYZabcdefghijklmnopqrstuvwxyz0123456789+/''"

definition b64_digit :: "nat \<Rightarrow> char" where
  "b64_digit n = b64_alphabet ! (n mod 64)"

fun base64 :: "string \<Rightarrow> string" where
  "base64 [] = []"
| "base64 [a] =
     (let x = (of_char a :: nat)
      in [b64_digit (x div 4), b64_digit ((x mod 4) * 16), CHR ''='', CHR ''=''])"
| "base64 [a, b] =
     (let x = (of_char a :: nat); y = (of_char b :: nat)
      in [b64_digit (x div 4), b64_digit ((x mod 4) * 16 + y div 16),
          b64_digit ((y mod 16) * 4), CHR ''=''])"
| "base64 (a # b # c # rest) =
     (let x = (of_char a :: nat); y = (of_char b :: nat); z = (of_char c :: nat)
      in [b64_digit (x div 4), b64_digit ((x mod 4) * 16 + y div 16),
          b64_digit ((y mod 16) * 4 + z div 64), b64_digit (z mod 64)] @ base64 rest)"

subsection \<open>Authorization headers\<close>

text \<open>
  \<^verbatim>\<open>
  function _basicAuthHeader(username, password) {
      var buffer = new Buffer(username + ':' + password, 'utf8');
      return 'Basic ' + buffer.toString('base64');
  }
  function _authHeaderFromAuthInfo(authInfo) {
      if (authInfo.token) {
          return 'Bearer ' + authInfo.token;
      } else if (authInfo.username && authInfo.password) {
          return _basicAuthHeader(authInfo.username, authInfo.password);
      } else {
          return undefined;
      }
  }
  \<close>
\<close>

record authInfo =
  token :: "string option"
  username :: "string option"
  password :: "string option"

definition basicAuthHeader :: "string \<Rightarrow> string \<Rightarrow> string" where
  "basicAuthHeader user pass = ''Basic '' @ base64 (user @ '':'' @ pass)"

definition authHeaderFromAuthInfo :: "authInfo \<Rightarrow> string option" where
  "authHeaderFromAuthInfo a =
     (if truthy (token a) then Some (''Bearer '' @ the (token a))
      else if truthy (username a) \<and> truthy (password a)
      then Some (basicAuthHeader (the (username a)) (the (password a)))
      else None)"

subsection \<open>Errors\<close>

text \<open>
  Every error the module constructs, by constructor and by the site that raises it
  (the number is the index \<open>i\<close> of the signature in the message). \<open>TypeError\<close> is the
  platform's own exception; \<open>External\<close> is an error handed over by a collaborator (the
  HTTP client, the login pipeline, a library).
\<close>

datatype invalid_content =
    CouldNotParseProtected nat
  | InvalidFormatLength nat
  | ConflictingFormatLength nat
  | MissingFormatTail nat
  | ConflictingFormatTail nat
  | ErrorInJwk nat
  | UnsupportedSchemaVersion
  | HistoryLengthNotLayers
  | NoLayers

datatype bad_digest =
    MissingDcdHeader
  | CouldNotParseDcdHeader
  | DcdHeaderError
  | DcdMismatch
  | CouldNotParseBlobDcd
  | DcdNotGivenDigest

datatype manifest_verification = DisallowedAlgorithm nat | FailedVerification nat

datatype download = MaxRedirects | UnexpectedSize int nat

datatype unauthorized = TokenRequestFailed "nat option" | NoTokenInResponse

datatype error =
    InvalidContentError invalid_content
  | BadDigestError bad_digest
  | ManifestVerificationError manifest_verification
  | InternalError nat
  | DownloadError download
  | UnauthorizedError unauthorized
  | UnsupportedSchemeError string string
  | FormatError
  | TypeError
  | External string

text \<open>
  \<open>UnsupportedSchemeError realm scheme\<close> is the plain JavaScript \<open>Error\<close> that
  \<open>_getToken\<close> builds with the message
  \<open>unsupported scheme for WWW-Authenticate realm "realm": "scheme"\<close>.
  \<open>FormatError\<close> is the plain \<open>Error\<close> that the formatter of an error class throws
  when the message it is given has a conversion and no argument for it.
\<close>

subsection \<open>Data model\<close>

text \<open>
  The \<open>formatLength\<close> of a decoded protected header is absent (\<open>undefined\<close>), a value
  that \<open>isNaN\<close> rejects (kept as the text that \<open>%j\<close> prints for it), or an integer.
  JSON values of other types that \<open>isNaN\<close> accepts by coercion (\<open>null\<close>, booleans,
  numeric strings) and fractions are outside the model. Its \<open>formatTail\<close> is \<open>None\<close>
  when it is absent or not a string. The same type is the result of \<open>Number\<close> on a
  header value.
\<close>

datatype js_number = Missing | NotANumber string | Number int

fun isNaN :: "js_number \<Rightarrow> bool" where
  "isNaN Missing = True"
| "isNaN (NotANumber r) = True"
| "isNaN (Number n) = False"

record protectedHeader =
  ph_formatLength :: js_number
  ph_formatTail :: "string option"

text \<open>
  What \<open>JSON.parse\<close> does with the text of a protected header: it throws, it returns
  \<open>null\<close>, or it returns a value with properties (a value that is not an object has
  neither \<open>formatLength\<close> nor \<open>formatTail\<close>).
\<close>

datatype parsed = ParseThrows | ParsedNull | Parsed protectedHeader

type_synonym jwk = "(string \<times> string) list"

record sig_header =
  alg :: "string option"
  jwk :: "jwk option"
  chain :: "string list option"

record manifest_signature =
  sig_header :: sig_header
  sig_signature :: string
  sig_protected :: string

record manifest =
  schemaVersion :: "int option"
  name :: string
  tag :: string
  architecture :: string
  fsLayers :: "string list"
  history :: "string list"
  signatures :: "manifest_signature list"

record jws_header =
  jws_alg :: "string option"
  jws_chain :: "string list option"
  jws_jwk :: "string option"

record jws_signature =
  jws_header :: jws_header
  jws_signature :: string
  jws_protected :: string

record jws =
  jws_signatures :: "jws_signature list"
  payload :: string

record response =
  statusCode :: nat
  headers :: "string \<rightharpoonup> string"

text \<open>
  The libraries and platform functions the module calls, as parameters:
  \<^item> \<open>base64url_toBuffer\<close>: the bytes that a base64url text encodes;
  \<^item> \<open>toString_utf8\<close>: \<open>buf.toString('utf8')\<close>, in the representation of a string by
    its UTF-8 bytes: the bytes themselves when they are valid UTF-8, and otherwise the
    bytes with every invalid sequence replaced by the three bytes of U+FFFD;
  \<^item> \<open>base64url_encode\<close>: \<open>base64url(buf)\<close>;
  \<^item> \<open>JSON_parse\<close> on a protected header, and \<open>JSON_stringify\<close> on a string;
  \<^item> \<open>jwkToPem\<close> (\<open>Inl\<close> the message of the exception when it throws);
  \<^item> \<open>jws_verify\<close> (\<open>Inl\<close> when it throws);
  \<^item> \<open>createHash_throws\<close>: the message of the exception of \<open>crypto.createHash\<close> for
    an algorithm it does not know, \<open>None\<close> when it returns a hash, and \<open>digest_hex\<close>,
    the hex digest of the bytes fed to a hash of an algorithm;
  \<^item> \<open>url_parse\<close> (a field the URL lacks is \<open>null\<close>), \<open>encodeURI\<close>,
    \<open>encodeURIComponent\<close>, \<open>querystring_stringify\<close> and \<open>Number\<close> on a string;
  \<^item> \<open>sprintf\<close>: the formatter that the error classes of restify apply to their
    message, given the message alone (\<open>None\<close> when it throws);
  \<^item> \<open>new_UnauthorizedError\<close>: the constructor \<open>errors.UnauthorizedError\<close> of
    \<open>lib/errors.js\<close>, which is not among the sources, from its first argument (the
    cause, \<open>None\<close> when it is \<open>null\<close> or \<open>undefined\<close>) and its message: \<open>Inl\<close> the
    exception when the constructor throws, \<open>Inr\<close> the error it builds.
\<close>

record parsed_url =
  protocol :: "string option"
  host :: "string option"
  url_path :: "string option"

record query =
  q_service :: "string option"
  q_scope :: "string list option"
  q_account :: "string option"

record platform =
  base64url_toBuffer :: "string \<Rightarrow> string"
  toString_utf8 :: "string \<Rightarrow> string"
  base64url_encode :: "string \<Rightarrow> string"
  JSON_parse :: "string \<Rightarrow> parsed"
  JSON_stringify :: "string \<Rightarrow> string"
  jwkToPem :: "jwk \<Rightarrow> string + string"
  jws_verify :: "string \<Rightarrow> string option \<Rightarrow> string option \<Rightarrow> error + bool"
  createHash_throws :: "string \<Rightarrow> string option"
  digest_hex :: "string \<Rightarrow> string \<Rightarrow> string"
  url_parse :: "string \<Rightarrow> parsed_url"
  encodeURI :: "string \<Rightarrow> string"
  encodeURIComponent :: "string \<Rightarrow> string"
  querystring_stringify :: "query \<Rightarrow> string"
  js_Number :: "string \<Rightarrow> js_number"
  sprintf :: "string \<Rightarrow> string option"
  new_UnauthorizedError :: "error option \<Rightarrow> unauthorized \<Rightarrow> error + error"

text \<open>
  \<open>base64url.decode(s)\<close> is \<open>new Buffer(toBase64(s), 'base64').toString('utf8')\<close>: the
  bytes that \<open>s\<close> encodes, read as UTF-8 text.
\<close>

definition base64url_decode :: "platform \<Rightarrow> string \<Rightarrow> string" where
  "base64url_decode P s = toString_utf8 P (base64url_toBuffer P s)"

subsection \<open>Messages and error classes\<close>

text \<open>The decimal digits of a number, as \<open>%d\<close> and \<open>%j\<close> print an integer.\<close>

fun dec :: "nat \<Rightarrow> string" where
  "dec n = (if n < 10 then [''0123456789'' ! n]
            else dec (n div 10) @ [''0123456789'' ! (n mod 10)])"

declare dec.simps [simp del]

definition dec_int :: "int \<Rightarrow> string" where
  "dec_int n = (if n < 0 then ''-'' @ dec (nat (- n)) else dec (nat n))"

text \<open>What \<open>%j\<close> prints for the \<open>formatLength\<close> of a protected header.\<close>

fun render :: "js_number \<Rightarrow> string" where
  "render Missing = ''undefined''"
| "render (NotANumber r) = r"
| "render (Number n) = dec_int n"

text \<open>
  \<open>new restify.SomeError(message)\<close>: the constructor hands the message to its formatter
  as a format string with no argument. A message without a percent sign has nothing to
  convert and the error is built; for any other message the formatter decides, and when
  it throws, the \<open>new\<close> expression throws that plain \<open>Error\<close> and builds nothing.
  The source formats its messages with \<open>fmt\<close> before, so that what reaches the
  constructor holds the data of the manifest or of the response as text.
\<close>

definition restifyError :: "platform \<Rightarrow> string \<Rightarrow> error \<Rightarrow> error + error" where
  "restifyError P message e =
     (if CHR ''%'' \<in> set message
      then (case sprintf P message of None \<Rightarrow> Inl FormatError | Some m \<Rightarrow> Inr e)
      else Inr e)"

text \<open>\<open>throw new restify.SomeError(message)\<close>: the exception that leaves the statement.\<close>

definition thrown :: "error + error \<Rightarrow> error" where
  "thrown r = (case r of Inl x \<Rightarrow> x | Inr e \<Rightarrow> e)"

subsection \<open>Buffers\<close>

text \<open>
  \<open>buf.slice(start, end)\<close>, as Node 0.10 and 0.12 have it: an index is first
  converted to a signed 32-bit integer (\<open>~~index\<close>); then an index at or beyond the
  length is the length, a negative index counts from the end and stops at 0,
  \<open>end = undefined\<close> is the length, and an end before the start gives the empty
  buffer.
\<close>

definition toInt32 :: "int \<Rightarrow> int" where
  "toInt32 n = (n + 2147483648) mod 4294967296 - 2147483648"

definition clamp :: "int \<Rightarrow> int \<Rightarrow> int" where
  "clamp index0 len =
     (let index = toInt32 index0
      in if index \<ge> len then len
         else if index \<ge> 0 then index
         else if index + len \<ge> 0 then index + len
         else 0)"

definition buffer_slice :: "string \<Rightarrow> int \<Rightarrow> int option \<Rightarrow> string" where
  "buffer_slice buf start end =
     (let len = int (length buf);
          s = clamp start len;
          e = (case end of None \<Rightarrow> len | Some n \<Rightarrow> clamp n len)
      in if e < s then [] else take (nat (e - s)) (drop (nat s) buf))"

subsection \<open>The JWS of a manifest: \<open>_jwsFromManifest\<close>\<close>

text \<open>
  The state of the loop over \<open>manifest.signatures\<close>: the variables \<open>formatLength\<close> and
  \<open>formatTail\<close> (both \<open>undefined\<close> at first) and \<open>jws.signatures\<close>.
\<close>

record jws_state =
  st_formatLength :: "int option"
  st_formatTail :: "string option"
  st_signatures :: "jws_signature list"

definition jws_init :: jws_state where
  "jws_init = \<lparr>st_formatLength = None, st_formatTail = None, st_signatures = []\<rparr>"

text \<open>
  One iteration of the loop, for \<open>sig = manifest.signatures[i]\<close>, in the order of the
  source: the protected header is parsed, \<open>formatLength\<close> is checked and recorded,
  \<open>formatTail\<close> is checked, decoded and recorded, and the signature is pushed with its
  JWK converted to PEM.
\<close>

definition checkFormatLength ::
  "platform \<Rightarrow> nat \<Rightarrow> js_number \<Rightarrow> int option \<Rightarrow> error + int option" where
  \<open>checkFormatLength P i v formatLength =
     (if isNaN v
      then Inl (thrown (restifyError P
             (''invalid "formatLength" in "signatures['' @ dec i @ ''].protected": '' @ render v)
             (InvalidContentError (InvalidFormatLength i))))
      else if formatLength = None
      then Inr (case v of Number n \<Rightarrow> Some n | _ \<Rightarrow> None)
      else if v \<noteq> Number (the formatLength)
      then Inl (thrown (restifyError P
             (''conflicting "formatLength" in "signatures['' @ dec i @ ''].protected": '' @
              render v)
             (InvalidContentError (ConflictingFormatLength i))))
      else Inr formatLength)\<close>

definition checkFormatTail ::
  "platform \<Rightarrow> nat \<Rightarrow> string option \<Rightarrow> string option \<Rightarrow> error + string option" where
  \<open>checkFormatTail P i v formatTail =
     (if \<not> truthy v
      then Inl (thrown (restifyError P
             (''missing "formatTail" in "signatures['' @ dec i @ ''].protected"'')
             (InvalidContentError (MissingFormatTail i))))
      else
        let formatTail' = base64url_decode P (the v)
        in if formatTail = None then Inr (Some formatTail')
           else if formatTail' \<noteq> the formatTail
           then Inl (thrown (restifyError P
                  (''conflicting "formatTail" in "signatures['' @ dec i @ ''].protected": '' @
                   JSON_stringify P formatTail')
                  (InvalidContentError (ConflictingFormatTail i))))
           else Inr formatTail)\<close>

definition jwsSig :: "platform \<Rightarrow> nat \<Rightarrow> manifest_signature \<Rightarrow> error + jws_signature" where
  \<open>jwsSig P i sig =
     (let hdr = \<lparr>jws_alg = alg (sig_header sig),
                 jws_chain = chain (sig_header sig),
                 jws_jwk = None\<rparr>;
          s = \<lparr>jws_header = hdr,
               jws_signature = sig_signature sig,
               jws_protected = sig_protected sig\<rparr>
      in case jwk (sig_header sig) of
           None \<Rightarrow> Inr s
         | Some k \<Rightarrow>
             (case jwkToPem P k of
                Inl jwkErr_message \<Rightarrow>
                  Inl (thrown (restifyError P
                    (''error in "signatures['' @ dec i @ ''].header.jwk": '' @ jwkErr_message)
                    (InvalidContentError (ErrorInJwk i))))
              | Inr pem \<Rightarrow> Inr (s\<lparr>jws_header := hdr\<lparr>jws_jwk := Some pem\<rparr>\<rparr>)))\<close>

text \<open>
  A protected header that parses to \<open>null\<close> makes the read of its \<open>formatLength\<close>,
  which is outside the \<open>try\<close>, throw a \<open>TypeError\<close>.
\<close>

definition jwsStep :: "platform \<Rightarrow> nat \<Rightarrow> manifest_signature \<Rightarrow> jws_state \<Rightarrow> error + jws_state" where
  \<open>jwsStep P i sig st =
     (case JSON_parse P (base64url_decode P (sig_protected sig)) of
        ParseThrows \<Rightarrow>
          Inl (thrown (restifyError P
            (''could not parse manifest "signatures['' @ dec i @ ''].protected": '' @
             JSON_stringify P (sig_protected sig))
            (InvalidContentError (CouldNotParseProtected i))))
      | ParsedNull \<Rightarrow> Inl TypeError
      | Parsed protectedHeader \<Rightarrow>
          (case checkFormatLength P i (ph_formatLength protectedHeader) (st_formatLength st) of
             Inl e \<Rightarrow> Inl e
           | Inr formatLength' \<Rightarrow>
               (case checkFormatTail P i (ph_formatTail protectedHeader) (st_formatTail st) of
                  Inl e \<Rightarrow> Inl e
                | Inr formatTail' \<Rightarrow>
                    (case jwsSig P i sig of
                       Inl e \<Rightarrow> Inl e
                     | Inr s \<Rightarrow>
                         Inr \<lparr>st_formatLength = formatLength',
                              st_formatTail = formatTail',
                              st_signatures = st_signatures st @ [s]\<rparr>))))\<close>

fun jwsLoop :: "platform \<Rightarrow> nat \<Rightarrow> manifest_signature list \<Rightarrow> jws_state \<Rightarrow> error + jws_state" where
  "jwsLoop P i [] st = Inr st"
| "jwsLoop P i (sig # sigs) st =
     (case jwsStep P i sig st of
        Inl e \<Rightarrow> Inl e
      | Inr st' \<Rightarrow> jwsLoop P (Suc i) sigs st')"

text \<open>
  After the loop the payload is \<open>Buffer.concat([body.slice(0, formatLength),
  new Buffer(formatTail)])\<close>, where \<open>formatTail\<close> is the text that \<open>base64url.decode\<close>
  gave and \<open>new Buffer\<close> of a text is its UTF-8 bytes. With no signature \<open>formatTail\<close>
  is still \<open>undefined\<close> and \<open>new Buffer(undefined)\<close> throws a \<open>TypeError\<close>.
\<close>

definition jwsFromManifest :: "platform \<Rightarrow> manifest \<Rightarrow> string \<Rightarrow> error + jws" where
  "jwsFromManifest P m body =
     (case jwsLoop P 0 (signatures m) jws_init of
        Inl e \<Rightarrow> Inl e
      | Inr st \<Rightarrow>
          (case st_formatTail st of
             None \<Rightarrow> Inl TypeError
           | Some formatTail' \<Rightarrow>
               Inr \<lparr>jws_signatures = st_signatures st,
                    payload = buffer_slice body 0 (st_formatLength st) @ formatTail'\<rparr>))"

subsection \<open>The \<open>Docker-Content-Digest\<close> header\<close>

text \<open>
  \<open>strsplit(dcd, ':', 2)\<close> gives at most two fields, the second one holding everything
  after the first separator.
\<close>

definition strsplit2 :: "char \<Rightarrow> string \<Rightarrow> string list" where
  "strsplit2 sep s =
     (if sep \<in> set s
      then [takeWhile (\<lambda>c. c \<noteq> sep) s, drop 1 (dropWhile (\<lambda>c. c \<noteq> sep) s)]
      else [s])"

text \<open>
  The hash object of \<open>crypto.createHash\<close> is modelled by the bytes it has been fed:
  \<open>update\<close> appends, and \<open>digest('hex')\<close> is \<open>digest_hex\<close> of the algorithm on them.
\<close>

record dcdInfo =
  raw :: string
  hash :: string
  algorithm :: string
  expectedDigest :: string

definition parseDockerContentDigest :: "platform \<Rightarrow> string option \<Rightarrow> error + dcdInfo" where
  \<open>parseDockerContentDigest P dcd =
     (if \<not> truthy dcd then Inl (BadDigestError MissingDcdHeader)
      else
        let parts = strsplit2 CHR '':'' (the dcd)
        in if length parts \<noteq> 2
           then Inl (thrown (restifyError P
                  (''could not parse "Docker-Content-Digest" header: '' @ the dcd)
                  (BadDigestError CouldNotParseDcdHeader)))
           else
             (case createHash_throws P (parts ! 0) of
                Some hashErr_message \<Rightarrow>
                  Inl (thrown (restifyError P
                    (''"Docker-Content-Digest" header error: '' @ hashErr_message @ '': '' @
                     the dcd)
                    (BadDigestError DcdHeaderError)))
              | None \<Rightarrow>
                  Inr \<lparr>raw = the dcd, hash = [], algorithm = parts ! 0,
                       expectedDigest = parts ! 1\<rparr>))\<close>

definition hashUpdate :: "dcdInfo \<Rightarrow> string \<Rightarrow> dcdInfo" where
  "hashUpdate d chunk = d\<lparr>hash := hash d @ chunk\<rparr>"

definition hashDigest :: "platform \<Rightarrow> dcdInfo \<Rightarrow> string" where
  "hashDigest P d = digest_hex P (algorithm d) (hash d)"


subsection \<open>Verifying the JWS: \<open>_verifyJws\<close>\<close>

definition disallowedAlgs :: "string option list" where
  "disallowedAlgs = [Some ''none'']"

text \<open>
  \<open>header.chain\<close> is an array when present, and an array is a true condition even when
  empty.
\<close>

definition jwsCompact :: "string \<Rightarrow> jws_signature \<Rightarrow> string" where
  "jwsCompact encodedPayload s =
     jws_protected s @ ''.'' @ encodedPayload @ ''.'' @ jws_signature s"

fun verifyLoop :: "platform \<Rightarrow> string \<Rightarrow> nat \<Rightarrow> jws_signature list \<Rightarrow> error + unit" where
  "verifyLoop P encodedPayload i [] = Inr ()"
| "verifyLoop P encodedPayload i (s # ss) =
     (if jws_alg (jws_header s) \<in> set disallowedAlgs
      then Inl (ManifestVerificationError (DisallowedAlgorithm i))
      else if jws_chain (jws_header s) \<noteq> None
      then Inl (InternalError i)
      else
        (case jws_verify P (jwsCompact encodedPayload s) (jws_alg (jws_header s))
                (jws_jwk (jws_header s)) of
           Inl e \<Rightarrow> Inl e
         | Inr verified \<Rightarrow>
             if \<not> verified then Inl (ManifestVerificationError (FailedVerification i))
             else verifyLoop P encodedPayload (Suc i) ss))"

definition verifyJws :: "platform \<Rightarrow> jws \<Rightarrow> error + unit" where
  "verifyJws P j = verifyLoop P (base64url_encode P (payload j)) 0 (jws_signatures j)"

subsection \<open>\<open>getManifest\<close>\<close>





subsection \<open>Blobs: \<open>_headOrGetBlob\<close>\<close>

record http_headers =
  authorization :: "string option"

text \<open>
  The options of one request. \<open>req_headers\<close> is \<open>None\<close> when the object has no
  \<open>headers\<close> key. String concatenation turns \<open>null\<close> into the text \<open>null\<close>.
\<close>

record req_opts =
  url :: string
  path :: "string option"
  req_headers :: "http_headers option"

definition js_concat :: "string option \<Rightarrow> string" where
  "js_concat v = (case v of None \<Rightarrow> ''null'' | Some s \<Rightarrow> s)"

text \<open>
  What the HTTP client does with one request: the connection fails (\<open>connErr\<close>), or the
  \<open>result\<close> event fires with an error or not, and a response. The registry and the
  hosts it redirects to are the parameter \<open>send\<close>, from the HTTP method, the number of
  requests made before this one and the request's options.
\<close>

datatype request_outcome = ConnErr error | Result "error option" response

record client =
  c_url :: string
  remoteName :: string
  c_headers :: http_headers

datatype blob_outcome =
    BlobCallback "error option" "response list"
  | BlobUncaught error

definition MAX_NUM_REDIRS :: nat where
  "MAX_NUM_REDIRS = 3"

text \<open>
  \<open>makeReq\<close>, with the variables it closes over as arguments: \<open>numRedirs\<close>, \<open>ress\<close>, and
  \<open>issued\<close>, the list of the options of every request handed to the HTTP client so far
  (kept for the statements about what is sent; the source has no such list). The result
  is what \<open>cb\<close> receives, \<open>cb(err, ress)\<close>. \<open>url.parse\<close> of a missing \<open>Location\<close> throws
  inside the event handler.
\<close>

function makeReq ::
  "platform \<Rightarrow> (nat \<Rightarrow> req_opts \<Rightarrow> request_outcome) \<Rightarrow> nat \<Rightarrow> response list \<Rightarrow>
   req_opts list \<Rightarrow> req_opts \<Rightarrow> blob_outcome \<times> req_opts list" where
  "makeReq P send numRedirs ress issued reqOpts =
     (if numRedirs \<ge> MAX_NUM_REDIRS
      then (BlobCallback (Some (DownloadError MaxRedirects)) ress, issued)
      else
        (case send numRedirs reqOpts of
           ConnErr connErr \<Rightarrow> (BlobCallback (Some connErr) ress, issued @ [reqOpts])
         | Result err res \<Rightarrow>
             (case err of
                Some e \<Rightarrow> (BlobCallback (Some e) (ress @ [res]), issued @ [reqOpts])
              | None \<Rightarrow>
                  if statusCode res = 302 \<or> statusCode res = 307
                  then
                    (case headers res ''location'' of
                       None \<Rightarrow> (BlobUncaught TypeError, issued @ [reqOpts])
                     | Some location \<Rightarrow>
                         let loc = url_parse P location
                         in makeReq P send (numRedirs + 1) (ress @ [res]) (issued @ [reqOpts])
                              \<lparr>url = js_concat (protocol loc) @ ''//'' @ js_concat (host loc),
                               path = url_path loc,
                               req_headers = None\<rparr>)
                  else (BlobCallback None (ress @ [res]), issued @ [reqOpts]))))"
  by pat_completeness auto
termination
  by (relation "measure (\<lambda>(P, send, numRedirs, ress, issued, reqOpts). MAX_NUM_REDIRS - numRedirs)")
     auto

declare makeReq.simps [simp del]

text \<open>
  \<open>loginErr\<close> is what the \<open>doLogin\<close> step passes on; \<open>c\<close> is the client once logged in.
\<close>

definition headOrGetBlob ::
  "platform \<Rightarrow> (string \<Rightarrow> nat \<Rightarrow> req_opts \<Rightarrow> request_outcome) \<Rightarrow> error option \<Rightarrow> client \<Rightarrow>
   string \<Rightarrow> string \<Rightarrow> blob_outcome \<times> req_opts list" where
  "headOrGetBlob P send loginErr c method digest =
     (case loginErr of
        Some err \<Rightarrow> (BlobCallback (Some err) [], [])
      | None \<Rightarrow>
          makeReq P (send method) 0 [] []
            \<lparr>url = c_url c,
             path = Some (''/v2/'' @ encodeURI P (remoteName c) @ ''/blobs/'' @
                          encodeURIComponent P digest),
             req_headers = Some (c_headers c)\<rparr>)"

definition headBlob ::
  "platform \<Rightarrow> (string \<Rightarrow> nat \<Rightarrow> req_opts \<Rightarrow> request_outcome) \<Rightarrow> error option \<Rightarrow> client \<Rightarrow>
   string \<Rightarrow> blob_outcome \<times> req_opts list" where
  "headBlob P send loginErr c digest = headOrGetBlob P send loginErr c ''head'' digest"

text \<open>
  For comparison, the redirect loop as the specification words it (section 4.7): the
  response is appended to the chain; at a redirect (302 or 307), if \<open>redirs\<close> has reached
  \<open>MAX_REDIRS\<close> the operation fails with the Download error, else \<open>redirs\<close> is
  incremented and the request goes to the location without the authorization; any
  other response ends the chain. Here \<open>redirs\<close> counts the redirects followed.
\<close>

function spec_headOrGet ::
  "platform \<Rightarrow> (nat \<Rightarrow> req_opts \<Rightarrow> request_outcome) \<Rightarrow> nat \<Rightarrow> response list \<Rightarrow>
   req_opts \<Rightarrow> blob_outcome" where
  "spec_headOrGet P send redirs rchain req =
     (case send redirs req of
        ConnErr e \<Rightarrow> BlobCallback (Some e) rchain
      | Result err r \<Rightarrow>
          (case err of
             Some e \<Rightarrow> BlobCallback (Some e) (rchain @ [r])
           | None \<Rightarrow>
               if statusCode r = 302 \<or> statusCode r = 307
               then
                 if redirs \<ge> MAX_NUM_REDIRS
                 then BlobCallback (Some (DownloadError MaxRedirects)) (rchain @ [r])
                 else
                   (case headers r ''location'' of
                      None \<Rightarrow> BlobUncaught TypeError
                    | Some location \<Rightarrow>
                        let loc = url_parse P location
                        in spec_headOrGet P send (redirs + 1) (rchain @ [r])
                             \<lparr>url = js_concat (protocol loc) @ ''//'' @ js_concat (host loc),
                              path = url_path loc,
                              req_headers = None\<rparr>)
               else BlobCallback None (rchain @ [r])))"
  by pat_completeness auto
termination
  by (relation "measure (\<lambda>(P, send, redirs, rchain, req). MAX_NUM_REDIRS - redirs)") auto

declare spec_headOrGet.simps [simp del]

subsection \<open>Blob streams: \<open>createBlobReadStream\<close>\<close>

text \<open>
  The stream is the last response together with the variables the handlers close over:
  \<open>numBytes\<close> and \<open>dcdInfo\<close> (\<open>None\<close> when \<open>undefined\<close>).
\<close>

record blob_stream =
  stream_res :: response
  numBytes :: nat
  dcdInfo :: "dcdInfo option"

datatype stream_outcome =
    StreamCallback "error option" "blob_stream option" "response list option"
  | StreamUncaught error

text \<open>
  \<open>cb(new restify.BadDigestError(message))\<close>: when the constructor throws, the exception
  leaves the callback of \<open>_headOrGetBlob\<close> and \<open>cb\<close> is not called. The message for a
  header that does not parse is formatted from a text with two \<open>%s\<close> and one argument,
  so that it reaches the constructor with a \<open>%s\<close> left in it.
\<close>

definition cbError :: "error + error \<Rightarrow> stream_outcome" where
  "cbError r = (case r of Inl x \<Rightarrow> StreamUncaught x | Inr e \<Rightarrow> StreamCallback (Some e) None None)"

definition openStream :: "platform \<Rightarrow> string \<Rightarrow> response list \<Rightarrow> stream_outcome" where
  \<open>openStream P digest ress =
     (case ress of
        [] \<Rightarrow> StreamUncaught TypeError
      | first # _ \<Rightarrow>
          let stream = last ress;
              dcdHeader = headers first ''docker-content-digest''
          in if truthy dcdHeader
             then
               (case parseDockerContentDigest P dcdHeader of
                  Inl parseErr \<Rightarrow>
                    cbError (restifyError P
                      (''could not parse Docker-Content-Digest header, "'' @ the dcdHeader @
                       ''": %s'')
                      (BadDigestError CouldNotParseBlobDcd))
                | Inr d \<Rightarrow>
                    if raw d \<noteq> digest
                    then cbError (restifyError P
                           (''Docker-Content-Digest header, '' @ raw d @
                            '', does not match given digest, '' @ digest)
                           (BadDigestError DcdNotGivenDigest))
                    else StreamCallback None
                           (Some \<lparr>stream_res = stream, numBytes = 0, dcdInfo = Some d\<rparr>)
                           (Some ress))
             else StreamCallback None
                    (Some \<lparr>stream_res = stream, numBytes = 0, dcdInfo = None\<rparr>)
                    (Some ress))\<close>

definition createBlobReadStream ::
  "platform \<Rightarrow> (string \<Rightarrow> nat \<Rightarrow> req_opts \<Rightarrow> request_outcome) \<Rightarrow> error option \<Rightarrow> client \<Rightarrow>
   string \<Rightarrow> stream_outcome" where
  "createBlobReadStream P send loginErr c digest =
     (case fst (headOrGetBlob P send loginErr c ''get'' digest) of
        BlobUncaught e \<Rightarrow> StreamUncaught e
      | BlobCallback (Some err) ress \<Rightarrow> StreamCallback (Some err) None (Some ress)
      | BlobCallback None ress \<Rightarrow> openStream P digest ress)"

text \<open>The \<open>data\<close> handler, and the \<open>end\<close> handler with the error it emits, if any.\<close>

definition onData :: "blob_stream \<Rightarrow> string \<Rightarrow> blob_stream" where
  "onData s chunk =
     s\<lparr>numBytes := numBytes s + length chunk,
       dcdInfo := (case dcdInfo s of None \<Rightarrow> None | Some d \<Rightarrow> Some (hashUpdate d chunk))\<rparr>"

definition contentLength :: "platform \<Rightarrow> blob_stream \<Rightarrow> js_number" where
  "contentLength P s =
     (case headers (stream_res s) ''content-length'' of
        None \<Rightarrow> NotANumber ''NaN''
      | Some v \<Rightarrow> js_Number P v)"

definition onEnd :: "platform \<Rightarrow> blob_stream \<Rightarrow> error option" where
  "onEnd P s =
     (let cLen = contentLength P s
      in if \<not> isNaN cLen \<and> Number (int (numBytes s)) \<noteq> cLen
         then Some (DownloadError (UnexpectedSize (case cLen of Number n \<Rightarrow> n | _ \<Rightarrow> 0)
                                     (numBytes s)))
         else
           (case dcdInfo s of
              Some d \<Rightarrow>
                if expectedDigest d \<noteq> hashDigest P d
                then Some (BadDigestError DcdMismatch)
                else None
            | None \<Rightarrow> None))"

text \<open>A whole stream: the chunks in order, then the end.\<close>

definition consume :: "platform \<Rightarrow> blob_stream \<Rightarrow> string list \<Rightarrow> error option" where
  "consume P s chunks = onEnd P (foldl onData s chunks)"

subsection \<open>Tokens: \<open>_getToken\<close>\<close>

record token_opts =
  indexName :: string
  realm :: string
  service :: "string option"
  scopes :: "string list option"
  opt_username :: "string option"
  opt_password :: "string option"
  insecure :: "bool option"

text \<open>
  The regular expression \<open>/^(\w+):\/\//\<close>: one or more of \<open>[A-Za-z0-9_]\<close> at the start,
  then \<open>://\<close>. The result is the first group of the match, \<open>None\<close> without a match.
\<close>

definition is_word_char :: "char \<Rightarrow> bool" where
  "is_word_char c =
     (let n = (of_char c :: nat)
      in (48 \<le> n \<and> n \<le> 57) \<or> (65 \<le> n \<and> n \<le> 90) \<or> n = 95 \<or> (97 \<le> n \<and> n \<le> 122))"

definition scheme_match :: "string \<Rightarrow> string option" where
  "scheme_match s =
     (let w = takeWhile is_word_char s; rest = dropWhile is_word_char s
      in if w \<noteq> [] \<and> take 3 rest = ''://'' then Some w else None)"

text \<open>The first block of \<open>_getToken\<close>: the URL of the token request, or the error.\<close>

definition tokenUrl :: "token_opts \<Rightarrow> error + string" where
  "tokenUrl opts =
     (case scheme_match (realm opts) of
        None \<Rightarrow>
          Inr ((if insecure opts = Some True then ''http'' else ''https'') @ ''://'' @ realm opts)
      | Some scheme \<Rightarrow>
          if scheme \<notin> set [''http'', ''https'']
          then Inl (UnsupportedSchemeError (realm opts) scheme)
          else Inr (realm opts))"

definition tokenQuery :: "token_opts \<Rightarrow> query" where
  "tokenQuery opts =
     \<lparr>q_service = (if truthy (service opts) then service opts else None),
      q_scope = (case scopes opts of
                   None \<Rightarrow> None
                 | Some sc \<Rightarrow> if length sc \<noteq> 0 then Some sc else None),
      q_account = (if truthy (opt_username opts) then opt_username opts else None)\<rparr>"

definition tokenHeaders :: "token_opts \<Rightarrow> http_headers" where
  "tokenHeaders opts =
     \<lparr>authorization =
        (if truthy (opt_username opts) \<and> truthy (opt_password opts)
         then Some (basicAuthHeader (the (opt_username opts)) (the (opt_password opts)))
         else None)\<rparr>"

text \<open>
  What the JSON client hands to the callback of the token request: the error if any, the
  status code of the response if there is one, and \<open>body.token\<close>.
\<close>

record token_result =
  tr_err :: "error option"
  tr_status :: "nat option"
  tr_token :: "string option"

text \<open>
  The fetch ends by calling \<open>cb(err)\<close> or \<open>cb(null, token)\<close>, or, when the constructor
  of the error throws inside the callback of the request, by an exception that no
  handler catches; then \<open>cb\<close> is never called.
\<close>

datatype token_outcome = TokenCallback "error + string" | TokenUncaught error

definition cbUnauthorized :: "error + error \<Rightarrow> token_outcome" where
  "cbUnauthorized r = (case r of Inl x \<Rightarrow> TokenUncaught x | Inr e \<Rightarrow> TokenCallback (Inl e))"

definition getToken ::
  "platform \<Rightarrow> (string \<Rightarrow> string option \<Rightarrow> http_headers \<Rightarrow> token_result) \<Rightarrow> token_opts \<Rightarrow>
   token_outcome" where
  "getToken P get opts =
     (case tokenUrl opts of
        Inl e \<Rightarrow> TokenCallback (Inl e)
      | Inr u \<Rightarrow>
          let q = tokenQuery opts;
              u' = (if q_service q \<noteq> None \<or> q_scope q \<noteq> None \<or> q_account q \<noteq> None
                    then u @ ''?'' @ querystring_stringify P q else u);
              parsedUrl = url_parse P u';
              r = get (js_concat (protocol parsedUrl) @ ''//'' @ js_concat (host parsedUrl))
                      (url_path parsedUrl) (tokenHeaders opts)
          in if tr_err r \<noteq> None
             then cbUnauthorized
                    (new_UnauthorizedError P (tr_err r) (TokenRequestFailed (tr_status r)))
             else if \<not> truthy (tr_token r)
             then cbUnauthorized (new_UnauthorizedError P None NoTokenInResponse)
             else TokenCallback (Inr (the (tr_token r))))"

subsection \<open>\<open>supportsV2\<close>\<close>

text \<open>
  \<open>header.split(/\s+/g)\<close>: the pieces of the header between the maximal runs of white
  space, with an empty piece before a leading run and after a trailing one. A header
  value is a string of 8-bit code units, of which \<open>\s\<close> matches tab, line feed, vertical
  tab, form feed, carriage return, space and the no-break space.
\<close>

definition is_space :: "char \<Rightarrow> bool" where
  "is_space c = ((of_char c :: nat) \<in> set [9, 10, 11, 12, 13, 32, 160])"

function split_from :: "string \<Rightarrow> string \<Rightarrow> string list" where
  "split_from cur [] = [cur]"
| "split_from cur (c # cs) =
     (if is_space c then cur # split_from [] (dropWhile is_space cs)
      else split_from (cur @ [c]) cs)"
  by pat_completeness auto
termination
  by (relation "measure (\<lambda>(cur, s). length s)")
     (auto simp: le_imp_less_Suc length_dropWhile_le)

definition split_ws :: "string \<Rightarrow> string list" where
  "split_ws s = split_from [] s"

text \<open>The outcome of the ping, as \<open>regPing\<close> hands it to the callback.\<close>

record ping_result =
  ping_err :: "error option"
  ping_res :: "response option"

text \<open>The result is the pair of arguments of \<open>cb\<close>.\<close>

definition supportsV2 :: "ping_result \<Rightarrow> error option \<times> bool" where
  "supportsV2 p =
     (case ping_res p of
        None \<Rightarrow> (None, False)
      | Some res \<Rightarrow>
          if statusCode res = 200 \<or> statusCode res = 401
          then
            (let header = headers res ''docker-distribution-api-version''
             in if truthy header
                then
                  (let versions = split_ws (the header)
                   in if ''registry/2.0'' \<in> set versions then (None, True)
                      else (None, False))
                else (None, False))
          else (None, False))"

subsection \<open>Predicates of the statements\<close>

definition isManifestVerificationError :: "error + 'a \<Rightarrow> bool" where
  "isManifestVerificationError r =
     (case r of Inl (ManifestVerificationError _) \<Rightarrow> True | _ \<Rightarrow> False)"

text \<open>A token fetch fails with an Unauthorized error: it calls back with one.\<close>

definition failsUnauthorized :: "token_outcome \<Rightarrow> bool" where
  "failsUnauthorized r =
     (case r of TokenCallback (Inl (UnauthorizedError _)) \<Rightarrow> True | _ \<Rightarrow> False)"

definition isInvalidContentError :: "error + 'a \<Rightarrow> bool" where
  "isInvalidContentError r = (case r of Inl (InvalidContentError _) \<Rightarrow> True | _ \<Rightarrow> False)"

text \<open>
  A signature that lets the loop of \<open>_verifyJws\<close> go on to the next one or fail its own
  verification: it has no \<open>header.chain\<close> and \<open>jws.verify\<close> returns on it.
\<close>

definition verifiable :: "platform \<Rightarrow> string \<Rightarrow> jws_signature \<Rightarrow> bool" where
  "verifiable P encodedPayload s =
     (jws_chain (jws_header s) = None \<and>
      (case jws_verify P (jwsCompact encodedPayload s) (jws_alg (jws_header s))
              (jws_jwk (jws_header s)) of
         Inl _ \<Rightarrow> False
       | Inr _ \<Rightarrow> True))"

text \<open>
  What a signature of the manifest says: the \<open>formatLength\<close> of its protected header
  (absent when the header does not parse to a value with properties), the bytes that
  its \<open>formatTail\<close> encodes, and the text that the extractor makes of them.
\<close>

definition formatLengthOf :: "platform \<Rightarrow> manifest_signature \<Rightarrow> js_number" where
  "formatLengthOf P sig =
     (case JSON_parse P (base64url_decode P (sig_protected sig)) of
        Parsed protectedHeader \<Rightarrow> ph_formatLength protectedHeader
      | _ \<Rightarrow> Missing)"

definition formatTailOf :: "platform \<Rightarrow> manifest_signature \<Rightarrow> string option" where
  "formatTailOf P sig =
     (case JSON_parse P (base64url_decode P (sig_protected sig)) of
        Parsed protectedHeader \<Rightarrow> ph_formatTail protectedHeader
      | _ \<Rightarrow> None)"

definition decodedTailOf :: "platform \<Rightarrow> manifest_signature \<Rightarrow> string option" where
  "decodedTailOf P sig = map_option (base64url_toBuffer P) (formatTailOf P sig)"

definition tailTextOf :: "platform \<Rightarrow> manifest_signature \<Rightarrow> string option" where
  "tailTextOf P sig = map_option (base64url_decode P) (formatTailOf P sig)"


text \<open>
  A text stands in a string as a piece of its own: at the start or after white space,
  and at the end or before white space.
\<close>

definition token_at :: "string \<Rightarrow> string \<Rightarrow> bool" where
  "token_at t s = (\<exists>pre post. s = pre @ t @ post \<and> (pre = [] \<or> is_space (last pre)) \<and>
                     (post = [] \<or> is_space (hd post)))"

definition carries_authorization :: "req_opts \<Rightarrow> bool" where
  "carries_authorization r =
     (case req_headers r of None \<Rightarrow> False | Some h \<Rightarrow> authorization h \<noteq> None)"

subsection \<open>Example inputs\<close>

text \<open>
  A platform to run the model on. Its functions do what the libraries do on the inputs
  of the examples:
  \<^item> \<open>example_toBuffer\<close> decodes a text over the base64url alphabet, without padding;
  \<^item> \<open>example_toString\<close> keeps the bytes below 128 and replaces every other byte by
    the three bytes of U+FFFD, as the UTF-8 decoder does with a byte that belongs to no
    valid sequence (the examples have no other bytes than \<open>fe\<close> and \<open>ff\<close> above 127);
  \<^item> \<open>example_JSON_parse\<close> reads \<open>null\<close> and the objects
    \<open>{"formatLength":2,"formatTail":"fQ"}\<close> with one or both of the keys, an integer
    without sign and a string without escapes, and throws on any other text;
  \<^item> \<open>example_stringify\<close> puts a string without escapes between quotes;
  \<^item> \<open>example_sprintf\<close> throws when a conversion \<open>%s\<close>, \<open>%d\<close> or \<open>%j\<close> is in the
    message, for want of an argument, and takes \<open>%%\<close> for a percent sign;
  \<^item> \<open>example_Unauthorized\<close> throws a \<open>TypeError\<close> without a cause;
  \<^item> a JWK converts to the value of its \<open>pem\<close> entry, a signature verifies when it has
    an algorithm and a key that is not empty, the only hash is \<open>sha256\<close>, and the
    digest of a text is the text itself.
\<close>

definition b64url_value :: "char \<Rightarrow> nat" where
  "b64url_value c =
     (let n = (of_char c :: nat)
      in if 65 \<le> n \<and> n \<le> 90 then n - 65
         else if 97 \<le> n \<and> n \<le> 122 then n - 71
         else if 48 \<le> n \<and> n \<le> 57 then n + 4
         else if n = 45 then 62
         else 63)"

fun example_toBuffer :: "string \<Rightarrow> string" where
  "example_toBuffer (a # b # c # d # rest) =
     (let w = b64url_value a; x = b64url_value b; y = b64url_value c; z = b64url_value d
      in [char_of (w * 4 + x div 16), char_of ((x mod 16) * 16 + y div 4),
          char_of ((y mod 4) * 64 + z)] @ example_toBuffer rest)"
| "example_toBuffer [a, b, c] =
     (let w = b64url_value a; x = b64url_value b; y = b64url_value c
      in [char_of (w * 4 + x div 16), char_of ((x mod 16) * 16 + y div 4)])"
| "example_toBuffer [a, b] =
     (let w = b64url_value a; x = b64url_value b in [char_of (w * 4 + x div 16)])"
| "example_toBuffer [a] = []"
| "example_toBuffer [] = []"

definition example_toString :: "string \<Rightarrow> string" where
  "example_toString bs =
     concat (map (\<lambda>b. if (of_char b :: nat) < 128 then [b] else [CHR 0xEF, CHR 0xBF, CHR 0xBD]) bs)"

fun strip :: "string \<Rightarrow> string \<Rightarrow> string option" where
  "strip [] s = Some s"
| "strip (p # ps) [] = None"
| "strip (p # ps) (c # cs) = (if p = c then strip ps cs else None)"

definition is_digit :: "char \<Rightarrow> bool" where
  "is_digit c = (48 \<le> (of_char c :: nat) \<and> (of_char c :: nat) \<le> 57)"

definition decimal :: "string \<Rightarrow> js_number" where
  "decimal s =
     (if s \<noteq> [] \<and> (\<forall>c \<in> set s. is_digit c)
      then Number (foldl (\<lambda>n c. 10 * n + (int (of_char c) - 48)) 0 s)
      else NotANumber ''NaN'')"

definition example_string_value :: "string \<Rightarrow> string option" where
  \<open>example_string_value t =
     (if dropWhile (\<lambda>c. c \<noteq> CHR 0x22) t = ''"}''
      then Some (takeWhile (\<lambda>c. c \<noteq> CHR 0x22) t)
      else None)\<close>

definition example_tail :: "js_number \<Rightarrow> string \<Rightarrow> parsed" where
  "example_tail n t =
     (case example_string_value t of
        Some v \<Rightarrow> Parsed \<lparr>ph_formatLength = n, ph_formatTail = Some v\<rparr>
      | None \<Rightarrow> ParseThrows)"

definition example_JSON_parse :: "string \<Rightarrow> parsed" where
  \<open>example_JSON_parse s =
     (if s = ''null'' then ParsedNull
      else
        (case strip ''{"formatLength":'' s of
           Some r \<Rightarrow>
             (case decimal (takeWhile is_digit r) of
                Number n \<Rightarrow>
                  (case strip '',"formatTail":"'' (dropWhile is_digit r) of
                     Some t \<Rightarrow> example_tail (Number n) t
                   | None \<Rightarrow>
                       if dropWhile is_digit r = ''}''
                       then Parsed \<lparr>ph_formatLength = Number n, ph_formatTail = None\<rparr>
                       else ParseThrows)
              | _ \<Rightarrow> ParseThrows)
         | None \<Rightarrow>
             (case strip ''{"formatTail":"'' s of
                Some t \<Rightarrow> example_tail Missing t
              | None \<Rightarrow> ParseThrows)))\<close>

definition example_stringify :: "string \<Rightarrow> string" where
  "example_stringify s = [CHR 0x22] @ s @ [CHR 0x22]"

fun has_conversion :: "string \<Rightarrow> bool" where
  "has_conversion (a # b # rest) =
     (if a = CHR ''%'' then (if b = CHR ''%'' then has_conversion rest
                              else b \<in> set ''sdj'' \<or> has_conversion (b # rest))
      else has_conversion (b # rest))"
| "has_conversion [a] = False"
| "has_conversion [] = False"

definition example_sprintf :: "string \<Rightarrow> string option" where
  "example_sprintf m = (if has_conversion m then None else Some m)"

definition example_Unauthorized :: "error option \<Rightarrow> unauthorized \<Rightarrow> error + error" where
  "example_Unauthorized cause u =
     (case cause of None \<Rightarrow> Inl TypeError | Some c \<Rightarrow> Inr (UnauthorizedError u))"

definition example_jwkToPem :: "jwk \<Rightarrow> string + string" where
  "example_jwkToPem k =
     (case map_of k ''pem'' of None \<Rightarrow> Inl ''Unsupported key type'' | Some pem \<Rightarrow> Inr pem)"

definition example_verify :: "string \<Rightarrow> string option \<Rightarrow> string option \<Rightarrow> error + bool" where
  "example_verify compact a k =
     (case k of None \<Rightarrow> Inl (External ''no key'') | Some pem \<Rightarrow> Inr (pem \<noteq> [] \<and> a \<noteq> None))"

definition example_url_parse :: "string \<Rightarrow> parsed_url" where
  "example_url_parse s = \<lparr>protocol = Some ''https:'', host = Some s, url_path = Some ''/blob''\<rparr>"

definition example_platform :: platform where
  "example_platform =
     \<lparr>base64url_toBuffer = example_toBuffer,
      toString_utf8 = example_toString,
      base64url_encode = (\<lambda>s. s),
      JSON_parse = example_JSON_parse,
      JSON_stringify = example_stringify,
      jwkToPem = example_jwkToPem,
      jws_verify = example_verify,
      createHash_throws = (\<lambda>a. if a = ''sha256'' then None else Some ''Digest method not supported''),
      digest_hex = (\<lambda>a d. d),
      url_parse = example_url_parse,
      encodeURI = (\<lambda>s. s),
      encodeURIComponent = (\<lambda>s. s),
      querystring_stringify = (\<lambda>q. ''account=user''),
      js_Number = decimal,
      sprintf = example_sprintf,
      new_UnauthorizedError = example_Unauthorized\<rparr>"

text \<open>
  Protected headers in base64url, as they are in a manifest:
  \<open>{"formatLength":2,"formatTail":"fQ"}\<close> (the tail is the byte \<open>}\<close>), the same with
  the tails \<open>_w\<close> (the byte \<open>ff\<close>), \<open>_g\<close> (the byte \<open>fe\<close>), \<open>XQ\<close> (the byte \<open>]\<close>)
  and \<open>JXM\<close> (the bytes \<open>%s\<close>), the first with \<open>formatLength\<close> 3, and
  \<open>{"formatTail":"fQ"}\<close>.
\<close>

definition protected_2_brace :: string where
  "protected_2_brace = ''eyJmb3JtYXRMZW5ndGgiOjIsImZvcm1hdFRhaWwiOiJmUSJ9''"

definition protected_2_ff :: string where
  "protected_2_ff = ''eyJmb3JtYXRMZW5ndGgiOjIsImZvcm1hdFRhaWwiOiJfdyJ9''"

definition protected_2_fe :: string where
  "protected_2_fe = ''eyJmb3JtYXRMZW5ndGgiOjIsImZvcm1hdFRhaWwiOiJfZyJ9''"

definition protected_2_bracket :: string where
  "protected_2_bracket = ''eyJmb3JtYXRMZW5ndGgiOjIsImZvcm1hdFRhaWwiOiJYUSJ9''"

definition protected_2_percent :: string where
  "protected_2_percent = ''eyJmb3JtYXRMZW5ndGgiOjIsImZvcm1hdFRhaWwiOiJKWE0ifQ''"

definition protected_3_brace :: string where
  "protected_3_brace = ''eyJmb3JtYXRMZW5ndGgiOjMsImZvcm1hdFRhaWwiOiJmUSJ9''"

definition protected_no_length :: string where
  "protected_no_length = ''eyJmb3JtYXRUYWlsIjoiZlEifQ''"

definition example_sig :: "string \<Rightarrow> string list option \<Rightarrow> jws_signature" where
  "example_sig a ch =
     \<lparr>jws_header = \<lparr>jws_alg = Some a, jws_chain = ch, jws_jwk = Some ''PEM''\<rparr>,
      jws_signature = ''c2ln'',
      jws_protected = ''xx|}''\<rparr>"

definition example_chain_then_none :: jws where
  "example_chain_then_none =
     \<lparr>jws_signatures = [example_sig ''ES256'' (Some [''MIIB'']), example_sig ''none'' None],
      payload = ''{}''\<rparr>"

definition example_valid_then_none :: jws where
  "example_valid_then_none =
     \<lparr>jws_signatures = [example_sig ''ES256'' None, example_sig ''none'' None],
      payload = ''{}''\<rparr>"

definition example_token_opts :: "string \<Rightarrow> token_opts" where
  "example_token_opts r =
     \<lparr>indexName = ''docker.io'', realm = r, service = Some ''registry.docker.io'',
      scopes = Some [''repository:library/busybox:pull''], opt_username = None,
      opt_password = None, insecure = None\<rparr>"

definition example_token_get :: "string \<Rightarrow> string option \<Rightarrow> http_headers \<Rightarrow> token_result" where
  "example_token_get u p h = \<lparr>tr_err = None, tr_status = Some 200, tr_token = Some ''t0k3n''\<rparr>"

definition example_manifest_sig :: "string \<Rightarrow> manifest_signature" where
  "example_manifest_sig p =
     \<lparr>sig_header = \<lparr>alg = Some ''ES256'', jwk = Some [(''kty'', ''EC''), (''pem'', ''PEM'')],
                    chain = None\<rparr>,
      sig_signature = ''c2ln'',
      sig_protected = p\<rparr>"

definition example_manifest :: "string list \<Rightarrow> manifest" where
  "example_manifest ps =
     \<lparr>schemaVersion = Some 1, name = ''library/busybox'', tag = ''latest'',
      architecture = ''amd64'', fsLayers = [''sha256:a3ed''], history = [''{}''],
      signatures = map example_manifest_sig ps\<rparr>"


text \<open>
  A registry that answers the first \<open>k\<close> requests of a blob with a redirect to a CDN
  (the digest is in the header of the redirect, as Docker Hub sends it) and the next one
  with the blob.
\<close>

definition example_307 :: response where
  "example_307 =
     \<lparr>statusCode = 307,
      headers = [''location'' \<mapsto> ''cdn.example.com'',
                 ''docker-content-digest'' \<mapsto> ''sha256:abc'']\<rparr>"

definition example_200 :: response where
  "example_200 = \<lparr>statusCode = 200, headers = [''content-length'' \<mapsto> ''3'']\<rparr>"

definition example_redirects :: "nat \<Rightarrow> string \<Rightarrow> nat \<Rightarrow> req_opts \<Rightarrow> request_outcome" where
  "example_redirects k method n r =
     (if n < k then Result None example_307 else Result None example_200)"

definition example_client :: client where
  "example_client =
     \<lparr>c_url = ''https://registry-1.docker.io'', remoteName = ''library/busybox'',
      c_headers = \<lparr>authorization = Some ''Bearer t0k3n''\<rparr>\<rparr>"

definition example_stream :: blob_stream where
  "example_stream =
     \<lparr>stream_res = example_200, numBytes = 0,
      dcdInfo = Some \<lparr>raw = ''sha256:abc'', hash = [], algorithm = ''sha256'',
                       expectedDigest = ''abc''\<rparr>\<rparr>"

text \<open>
  A registry that answers the request of a blob at once, with a \<open>Content-Length\<close> of 5
  and the digest, and the stream that \<open>createBlobReadStream\<close> returns for it.
\<close>

definition example_200_5 :: response where
  "example_200_5 =
     \<lparr>statusCode = 200,
      headers = [''content-length'' \<mapsto> ''5'',
                 ''docker-content-digest'' \<mapsto> ''sha256:abc'']\<rparr>"

definition example_direct :: "string \<Rightarrow> nat \<Rightarrow> req_opts \<Rightarrow> request_outcome" where
  "example_direct method n r = Result None example_200_5"

definition example_stream_5 :: blob_stream where
  "example_stream_5 =
     \<lparr>stream_res = example_200_5, numBytes = 0,
      dcdInfo = Some \<lparr>raw = ''sha256:abc'', hash = [], algorithm = ''sha256'',
                       expectedDigest = ''abc''\<rparr>\<rparr>"

text \<open>The result of a ping that gave a response with a status code and the version header.\<close>

definition example_ping :: "nat \<Rightarrow> string \<Rightarrow> ping_result" where
  "example_ping status h =
     \<lparr>ping_err = (if status = 200 then None else Some (External ''status'')),
      ping_res = Some \<lparr>statusCode = status,
                        headers = [''docker-distribution-api-version'' \<mapsto> h]\<rparr>\<rparr>"

section \<open>Properties\<close>

subsection \<open>Authorization header\<close>

text \<open>
  C10. The authorization header of an AuthInfo: with a token (a non-empty string) it is
  \<open>Bearer <token>\<close>, whatever the user name and the password are; without a token and
  with both a user name and a password it is \<open>Basic <base64(username:password)>\<close>;
  otherwise, also with a user name and no password, there is none. A field counts as
  present when the source's condition \<open>if (field)\<close> holds: it is defined and not the
  empty string.
\<close>

theorem authHeader_precedence:
  "(token a = Some t \<and> t \<noteq> [] \<longrightarrow> authHeaderFromAuthInfo a = Some (''Bearer '' @ t)) \<and>
   (\<not> truthy (token a) \<and> username a = Some u \<and> u \<noteq> [] \<and> password a = Some p \<and> p \<noteq> [] \<longrightarrow>
      authHeaderFromAuthInfo a = Some (''Basic '' @ base64 (u @ '':'' @ p))) \<and>
   (\<not> truthy (token a) \<and> \<not> (truthy (username a) \<and> truthy (password a)) \<longrightarrow>
      authHeaderFromAuthInfo a = None)"
  by (simp add: authHeaderFromAuthInfo_def basicAuthHeader_def truthy_def)

theorem authHeader_precedence_witness:
  "authHeaderFromAuthInfo \<lparr>token = Some ''tok'', username = Some ''user'', password = Some ''pass''\<rparr>
     = Some ''Bearer tok'' \<and>
   authHeaderFromAuthInfo \<lparr>token = None, username = Some ''user'', password = Some ''pass''\<rparr>
     = Some ''Basic dXNlcjpwYXNz'' \<and>
   authHeaderFromAuthInfo \<lparr>token = None, username = Some ''user'', password = None\<rparr> = None"
  using
    authHeader_precedence [of "\<lparr>token = Some ''tok'', username = Some ''user'',
      password = Some ''pass''\<rparr>" "''tok''" "''user''" "''pass''"]
    authHeader_precedence [of "\<lparr>token = None, username = Some ''user'',
      password = Some ''pass''\<rparr>" "''tok''" "''user''" "''pass''"]
    authHeader_precedence [of "\<lparr>token = None, username = Some ''user'',
      password = None\<rparr>" "''tok''" "''user''" "''pass''"]
  by (simp add: truthy_def b64_digit_def b64_alphabet_def)

subsection \<open>\<open>supportsV2\<close>\<close>

text \<open>
  What the split gives: a text without white space is one of the pieces exactly when it
  stands in the header as a piece of its own.
\<close>

lemma token_nil_case:
  assumes cur: "\<forall>c \<in> set cur. \<not> is_space c" and t: "t \<noteq> []"
  shows "token_at t cur \<longleftrightarrow> t = cur"
proof
  assume "token_at t cur"
  then obtain pre post where d: "cur = pre @ t @ post" and p: "pre = [] \<or> is_space (last pre)"
    and q: "post = [] \<or> is_space (hd post)" by (auto simp: token_at_def)
  have "pre = []"
  proof (rule ccontr)
    assume "pre \<noteq> []"
    with p have "is_space (last pre)" "last pre \<in> set cur" using d by auto
    with cur show False by blast
  qed
  moreover have "post = []"
  proof (rule ccontr)
    assume "post \<noteq> []"
    with q have "is_space (hd post)" "hd post \<in> set cur" using d by auto
    with cur show False by blast
  qed
  ultimately show "t = cur" using d by simp
next
  assume "t = cur"
  then show "token_at t cur" unfolding token_at_def
    by (intro exI [of _ "[]"]) simp
qed



lemma token_after_space:
  assumes cur: "\<forall>c \<in> set cur. \<not> is_space c" and t: "t \<noteq> []"
    and tt: "\<forall>c \<in> set t. \<not> is_space c" and c: "is_space c"
    and d: "cur @ c # cs = pre @ t @ post"
    and p: "pre = [] \<or> is_space (last pre)"
    and q: "post = [] \<or> is_space (hd post)"
    and n: "t \<noteq> cur"
  shows "\<exists>pre2. pre = cur @ c # pre2 \<and> cs = pre2 @ t @ post"
proof -
  from d obtain us where
    "cur = pre @ us \<and> us @ c # cs = t @ post \<or> cur @ us = pre \<and> c # cs = us @ t @ post"
    by (auto simp: append_eq_append_conv2)
  then show ?thesis
  proof
    assume a: "cur = pre @ us \<and> us @ c # cs = t @ post"
    have "pre = []"
    proof (rule ccontr)
      assume "pre \<noteq> []"
      with p a have "is_space (last pre)" "last pre \<in> set cur" by auto
      with cur show False by blast
    qed
    with a have e: "cur @ c # cs = t @ post" by simp
    then obtain vs where
      "cur = t @ vs \<and> vs @ c # cs = post \<or> cur @ vs = t \<and> c # cs = vs @ post"
      by (auto simp: append_eq_append_conv2)
    then have False
    proof
      assume b: "cur = t @ vs \<and> vs @ c # cs = post"
      with n have "vs \<noteq> []" by auto
      with b have "post \<noteq> []" "hd post = hd vs" "hd vs \<in> set cur" by auto
      with q cur show False by auto
    next
      assume b: "cur @ vs = t \<and> c # cs = vs @ post"
      with n have "vs \<noteq> []" by auto
      with b have "hd vs = c" "hd vs \<in> set t" by (auto simp: Cons_eq_append_conv)
      with tt c show False by auto
    qed
    then show ?thesis ..
  next
    assume b: "cur @ us = pre \<and> c # cs = us @ t @ post"
    show ?thesis
    proof (cases us)
      case Nil
      with b t have "c \<in> set t" by (cases t) auto
      with tt c show ?thesis by auto
    next
      case (Cons u pre2)
      with b show ?thesis by auto
    qed
  qed
qed

lemma token_skip_spaces:
  assumes tt: "\<forall>c \<in> set t. \<not> is_space c" and t: "t \<noteq> []"
    and p: "pre2 = [] \<or> is_space (last pre2)"
  shows "\<exists>pre'. dropWhile is_space (pre2 @ t @ post) = pre' @ t @ post \<and>
               (pre' = [] \<or> is_space (last pre'))"
proof (cases "\<forall>x \<in> set pre2. is_space x")
  case True
  from t tt have "dropWhile is_space (t @ post) = t @ post" by (cases t) auto
  with True have "dropWhile is_space (pre2 @ t @ post) = [] @ t @ post"
    by simp
  then show ?thesis by blast
next
  case False
  then have e: "dropWhile is_space (pre2 @ t @ post) = dropWhile is_space pre2 @ t @ post"
    by auto
  from False have ne: "dropWhile is_space pre2 \<noteq> []" by auto
  have "pre2 = takeWhile is_space pre2 @ dropWhile is_space pre2" by simp
  with ne have "last pre2 = last (dropWhile is_space pre2)"
    by (metis last_appendR)
  with ne p have "is_space (last (dropWhile is_space pre2))" by auto
  with e show ?thesis by blast
qed

lemma token_space_case:
  assumes cur: "\<forall>c \<in> set cur. \<not> is_space c" and t: "t \<noteq> []"
    and tt: "\<forall>c \<in> set t. \<not> is_space c" and c: "is_space c"
  shows "token_at t (cur @ c # cs) \<longleftrightarrow> t = cur \<or> token_at t (dropWhile is_space cs)"
proof
  assume "token_at t (cur @ c # cs)"
  then obtain pre post where d: "cur @ c # cs = pre @ t @ post"
    and p: "pre = [] \<or> is_space (last pre)"
    and q: "post = [] \<or> is_space (hd post)" by (auto simp: token_at_def)
  show "t = cur \<or> token_at t (dropWhile is_space cs)"
  proof (cases "t = cur")
    case True
    then show ?thesis ..
  next
    case False
    from token_after_space [OF cur t tt c d p q False] obtain pre2 where
      e: "pre = cur @ c # pre2" "cs = pre2 @ t @ post" by blast
    with p c have "pre2 = [] \<or> is_space (last pre2)" by (cases "pre2 = []") auto
    from token_skip_spaces [OF tt t this, of post] e q show ?thesis
      unfolding token_at_def by blast
  qed
next
  assume "t = cur \<or> token_at t (dropWhile is_space cs)"
  then show "token_at t (cur @ c # cs)"
  proof
    assume "t = cur"
    with c show ?thesis unfolding token_at_def
      by (intro exI [of _ "[]"] exI [of _ "c # cs"]) simp
  next
    assume "token_at t (dropWhile is_space cs)"
    then obtain pre post where d: "dropWhile is_space cs = pre @ t @ post"
      and p: "pre = [] \<or> is_space (last pre)"
      and q: "post = [] \<or> is_space (hd post)" by (auto simp: token_at_def)
    have "cs = takeWhile is_space cs @ pre @ t @ post"
      using d by (metis takeWhile_dropWhile_id)
    then have "cur @ c # cs = (cur @ c # takeWhile is_space cs @ pre) @ t @ post" by simp
    moreover from c p have "is_space (last (cur @ c # takeWhile is_space cs @ pre))"
      by (metis append.right_neutral last_ConsR last_appendR last_in_set
          last_snoc list.distinct(1) set_takeWhileD)
    ultimately show ?thesis using q unfolding token_at_def by blast
  qed
qed

lemma split_from_token:
  assumes "\<forall>c \<in> set cur. \<not> is_space c" "t \<noteq> []" "\<forall>c \<in> set t. \<not> is_space c"
  shows "t \<in> set (split_from cur s) \<longleftrightarrow> token_at t (cur @ s)"
  using assms
proof (induction cur s rule: split_from.induct)
  case (1 cur)
  then show ?case by (auto simp: token_nil_case)
next
  case (2 cur c cs)
  show ?case
  proof (cases "is_space c")
    case True
    have "t \<in> set (split_from [] (dropWhile is_space cs)) \<longleftrightarrow>
          token_at t ([] @ dropWhile is_space cs)"
      using "2.IH"(1) [OF True] "2.prems" by simp
    with True "2.prems" show ?thesis
      by (auto simp: token_space_case)
  next
    case False
    with "2.IH"(2) [OF False] "2.prems" show ?thesis by simp
  qed
qed

lemma split_ws_token:
  assumes "t \<noteq> []" "\<forall>c \<in> set t. \<not> is_space c"
  shows "t \<in> set (split_ws s) \<longleftrightarrow> token_at t s"
  using split_from_token [of "[]" t s] assms by (simp add: split_ws_def)


lemma is_space_codes:
  "is_space c \<longleftrightarrow> of_char c \<in> {9, 10, 11, 12, 13, 32, 160 :: nat}"
  by (simp add: is_space_def)

lemma registry_token_split:
  "''registry/2.0'' \<in> set (split_ws h) \<longleftrightarrow>
     (\<exists>pre post. h = pre @ ''registry/2.0'' @ post \<and>
        (pre = [] \<or> of_char (last pre) \<in> {9, 10, 11, 12, 13, 32, 160 :: nat}) \<and>
        (post = [] \<or> of_char (hd post) \<in> {9, 10, 11, 12, 13, 32, 160 :: nat}))"
proof -
  have "''registry/2.0'' \<in> set (split_ws h) \<longleftrightarrow> token_at ''registry/2.0'' h"
    by (rule split_ws_token) (simp_all add: is_space_def)
  then show ?thesis
    unfolding token_at_def is_space_codes .
qed

text \<open>
  C8. \<open>supportsV2\<close> always calls back without an error, and with \<open>true\<close> exactly when
  the ping gave a response with status code 200 or 401 whose
  \<open>Docker-Distribution-Api-Version\<close> header, split on white space, contains
  \<open>registry/2.0\<close>: the header has \<open>registry/2.0\<close> at its start or after a white space
  character, and there at its end or before a white space character, the white space
  characters being those of \<open>\s\<close> (tab, line feed, vertical tab, form feed, carriage
  return, space and no-break space). In every other case, a ping without a response
  included, it calls back with \<open>false\<close>.
\<close>

theorem supportsV2_iff:
  "supportsV2 p =
     (None,
      (\<exists>res h pre post.
         ping_res p = Some res \<and> (statusCode res = 200 \<or> statusCode res = 401) \<and>
         headers res ''docker-distribution-api-version'' = Some h \<and>
         h = pre @ ''registry/2.0'' @ post \<and>
         (pre = [] \<or> of_char (last pre) \<in> {9, 10, 11, 12, 13, 32, 160 :: nat}) \<and>
         (post = [] \<or> of_char (hd post) \<in> {9, 10, 11, 12, 13, 32, 160 :: nat})))"
proof -
  have "supportsV2 p =
     (None, (\<exists>res h. ping_res p = Some res \<and> (statusCode res = 200 \<or> statusCode res = 401) \<and>
               headers res ''docker-distribution-api-version'' = Some h \<and>
               ''registry/2.0'' \<in> set (split_ws h)))"
  proof (cases "ping_res p")
    case None
    then show ?thesis by (simp add: supportsV2_def)
  next
    case (Some res)
    show ?thesis
    proof (cases "headers res ''docker-distribution-api-version''")
      case None
      with Some show ?thesis by (simp add: supportsV2_def truthy_def)
    next
      case (Some h)
      have e: "h = [] \<Longrightarrow> ''registry/2.0'' \<notin> set (split_ws h)"
        by (simp add: split_ws_def)
      from Some \<open>ping_res p = Some res\<close> e show ?thesis
        by (auto simp: supportsV2_def truthy_def Let_def)
    qed
  qed
  then show ?thesis
    unfolding registry_token_split by (simp only: ex_simps [symmetric] conj_assoc) 
qed

lemma example_ping_supports:
  "(\<exists>res h pre post.
         ping_res (example_ping st h0) = Some res \<and> (statusCode res = 200 \<or> statusCode res = 401) \<and>
         headers res ''docker-distribution-api-version'' = Some h \<and>
         h = pre @ ''registry/2.0'' @ post \<and>
         (pre = [] \<or> of_char (last pre) \<in> {9, 10, 11, 12, 13, 32, 160 :: nat}) \<and>
         (post = [] \<or> of_char (hd post) \<in> {9, 10, 11, 12, 13, 32, 160 :: nat}))
   \<longleftrightarrow> (st = 200 \<or> st = 401) \<and> ''registry/2.0'' \<in> set (split_ws h0)"
  unfolding registry_token_split by (simp add: example_ping_def)

theorem supportsV2_iff_witness:
  "supportsV2 (example_ping 401 ''registry/2.0'') = (None, True) \<and>
   supportsV2 (example_ping 200 ''registry/1.0 registry/2.0'') = (None, True) \<and>
   supportsV2 (example_ping 200 (''registry/2.0'' @ [CHR 0x09, CHR 0x0A] @ ''registry/3.0''))
     = (None, True) \<and>
   supportsV2 (example_ping 200 ''registry/1.0,registry/2.0'') = (None, False) \<and>
   supportsV2 (example_ping 200 ''registry/2.01'') = (None, False) \<and>
   supportsV2 (example_ping 404 ''registry/2.0'') = (None, False) \<and>
   supportsV2 \<lparr>ping_err = Some (External ''ECONNREFUSED''), ping_res = None\<rparr> = (None, False)"
  using
    supportsV2_iff [of "example_ping 401 ''registry/2.0''"]
    supportsV2_iff [of "example_ping 200 ''registry/1.0 registry/2.0''"]
    supportsV2_iff [of "example_ping 200 (''registry/2.0'' @ [CHR 0x09, CHR 0x0A] @ ''registry/3.0'')"]
    supportsV2_iff [of "example_ping 200 ''registry/1.0,registry/2.0''"]
    supportsV2_iff [of "example_ping 200 ''registry/2.01''"]
    supportsV2_iff [of "example_ping 404 ''registry/2.0''"]
    supportsV2_iff [of "\<lparr>ping_err = Some (External ''ECONNREFUSED''), ping_res = None\<rparr>"]
  unfolding example_ping_supports
  by (simp add: split_ws_def is_space_def)

subsection \<open>The algorithm \<open>none\<close>\<close>

lemma verifyLoop_none_rejected:
  "Some ''none'' \<in> jws_alg ` jws_header ` set ss \<Longrightarrow> \<exists>e. verifyLoop P ep i ss = Inl e"
proof (induction ss arbitrary: i)
  case Nil
  then show ?case by simp
next
  case (Cons s ss)
  show ?case
  proof (cases "jws_alg (jws_header s) = Some ''none''")
    case True
    then show ?thesis by (simp add: disallowedAlgs_def)
  next
    case False
    with Cons.prems have "Some ''none'' \<in> jws_alg ` jws_header ` set ss" by auto
    from Cons.IH [OF this] show ?thesis
      by (auto split: sum.splits)
  qed
qed

lemma verifyLoop_none_kind:
  "Some ''none'' \<in> jws_alg ` jws_header ` set ss \<Longrightarrow>
   \<forall>s \<in> set (takeWhile (\<lambda>s. jws_alg (jws_header s) \<noteq> Some ''none'') ss). verifiable P ep s \<Longrightarrow>
   \<exists>mv. verifyLoop P ep i ss = Inl (ManifestVerificationError mv)"
proof (induction ss arbitrary: i)
  case Nil
  then show ?case by simp
next
  case (Cons s ss)
  show ?case
  proof (cases "jws_alg (jws_header s) = Some ''none''")
    case True
    then show ?thesis by (simp add: disallowedAlgs_def)
  next
    case False
    with Cons.prems have a: "Some ''none'' \<in> jws_alg ` jws_header ` set ss"
      and b: "\<forall>s \<in> set (takeWhile (\<lambda>s. jws_alg (jws_header s) \<noteq> Some ''none'') ss).
                verifiable P ep s"
      and c: "verifiable P ep s"
      by auto
    from Cons.IH [OF a b] c False show ?thesis
      by (auto simp: verifiable_def disallowedAlgs_def split: sum.splits)
  qed
qed

text \<open>
  C9, as stated: a JWS with a signature of algorithm \<open>none\<close> is rejected with a
  ManifestVerification error. It fails where an earlier signature carries a
  \<open>header.chain\<close>: the loop stops there with the Internal error of the unimplemented
  certificate chain, before it reaches the signature with \<open>none\<close>.
\<close>

theorem verifyJws_none_after_chain:
  "Some ''none'' \<in> jws_alg ` jws_header ` set (jws_signatures example_chain_then_none) \<and>
   verifyJws example_platform example_chain_then_none = Inl (InternalError 0) \<and>
   \<not> isManifestVerificationError (verifyJws example_platform example_chain_then_none)"
  by (simp add: verifyJws_def example_chain_then_none_def example_sig_def disallowedAlgs_def
      isManifestVerificationError_def)

text \<open>
  C9, amended. For every JWS whose signature list contains a signature with \<open>alg\<close>
  equal to \<open>none\<close>, verification rejects the manifest, whatever \<open>jws.verify\<close> says of
  any signature; the error is a ManifestVerification error when no signature before the
  first one with \<open>none\<close> carries a \<open>header.chain\<close> or makes \<open>jws.verify\<close> throw.
\<close>

theorem verifyJws_none_rejected:
  assumes "Some ''none'' \<in> jws_alg ` jws_header ` set (jws_signatures j)"
  shows "(\<exists>e. verifyJws P j = Inl e) \<and>
         ((\<forall>s \<in> set (takeWhile (\<lambda>s. jws_alg (jws_header s) \<noteq> Some ''none'') (jws_signatures j)).
             verifiable P (base64url_encode P (payload j)) s) \<longrightarrow>
          isManifestVerificationError (verifyJws P j))"
proof (intro conjI impI)
  show "\<exists>e. verifyJws P j = Inl e"
    unfolding verifyJws_def using assms by (rule verifyLoop_none_rejected)
next
  assume "\<forall>s \<in> set (takeWhile (\<lambda>s. jws_alg (jws_header s) \<noteq> Some ''none'') (jws_signatures j)).
             verifiable P (base64url_encode P (payload j)) s"
  with assms have "\<exists>mv. verifyJws P j = Inl (ManifestVerificationError mv)"
    unfolding verifyJws_def by (rule verifyLoop_none_kind)
  then show "isManifestVerificationError (verifyJws P j)"
    by (auto simp: isManifestVerificationError_def)
qed

theorem verifyJws_none_rejected_witness:
  "Some ''none'' \<in> jws_alg ` jws_header ` set (jws_signatures example_valid_then_none) \<and>
   isManifestVerificationError (verifyJws example_platform example_valid_then_none)"
  using verifyJws_none_rejected [of example_valid_then_none example_platform]
  by (simp add: example_valid_then_none_def example_sig_def verifiable_def
      example_platform_def example_verify_def)

subsection \<open>The scheme of the token realm\<close>

lemma colon_not_word: "\<not> is_word_char CHR '':''"
  by (simp add: is_word_char_def)

text \<open>What the regular expression matches, said without the scan.\<close>

lemma scheme_match_iff:
  "scheme_match s = Some w \<longleftrightarrow>
     w \<noteq> [] \<and> (\<forall>c \<in> set w. is_word_char c) \<and> (\<exists>rest. s = w @ ''://'' @ rest)"
proof
  assume a: "scheme_match s = Some w"
  then have w: "w = takeWhile is_word_char s" and ne: "w \<noteq> []"
    and t: "take 3 (dropWhile is_word_char s) = ''://''"
    by (auto simp: scheme_match_def Let_def split: if_splits)
  have "s = takeWhile is_word_char s @ take 3 (dropWhile is_word_char s) @
            drop 3 (dropWhile is_word_char s)"
    by simp
  with w t have "s = w @ ''://'' @ drop 3 (dropWhile is_word_char s)" by simp
  moreover have "\<forall>c \<in> set w. is_word_char c" using w by (auto dest: set_takeWhileD)
  ultimately show "w \<noteq> [] \<and> (\<forall>c \<in> set w. is_word_char c) \<and> (\<exists>rest. s = w @ ''://'' @ rest)"
    using ne by blast
next
  assume "w \<noteq> [] \<and> (\<forall>c \<in> set w. is_word_char c) \<and> (\<exists>rest. s = w @ ''://'' @ rest)"
  then obtain rest where ne: "w \<noteq> []" and all: "\<forall>c \<in> set w. is_word_char c"
    and s: "s = w @ ''://'' @ rest" by blast
  from all have "takeWhile is_word_char s = w" "dropWhile is_word_char s = ''://'' @ rest"
    unfolding s by (simp_all add: colon_not_word)
  with ne show "scheme_match s = Some w" by (simp add: scheme_match_def)
qed

lemma scheme_match_http: "scheme_match (''http://'' @ r) = Some ''http''"
  by (simp add: scheme_match_def is_word_char_def)

lemma scheme_match_https: "scheme_match (''https://'' @ r) = Some ''https''"
  by (simp add: scheme_match_def is_word_char_def)


text \<open>The characters of \<open>\w\<close>, by their codes: digits, capitals, underscore, small letters.\<close>

lemma word_characters:
  "is_word_char c \<longleftrightarrow> of_char c \<in> {48..57} \<union> {65..90} \<union> {95} \<union> {97..122 :: nat}"
  by (auto simp: is_word_char_def Let_def)

lemma has_scheme_iff:
  "(\<exists>w rest. w \<noteq> [] \<and>
      (\<forall>c \<in> set w. of_char c \<in> {48..57} \<union> {65..90} \<union> {95} \<union> {97..122 :: nat}) \<and>
      s = w @ ''://'' @ rest) \<longleftrightarrow> scheme_match s \<noteq> None"
proof -
  have "scheme_match s \<noteq> None \<longleftrightarrow> (\<exists>w. scheme_match s = Some w)" by auto
  also have "\<dots> \<longleftrightarrow> (\<exists>w. w \<noteq> [] \<and> (\<forall>c \<in> set w. is_word_char c) \<and>
                          (\<exists>rest. s = w @ ''://'' @ rest))"
    unfolding scheme_match_iff ..
  finally show ?thesis
    unfolding word_characters by blast
qed

lemmas example_token_eval =
  getToken_def tokenUrl_def tokenQuery_def tokenHeaders_def scheme_match_def is_word_char_def
  example_token_opts_def example_token_get_def example_platform_def example_url_parse_def
  js_concat_def truthy_def failsUnauthorized_def

text \<open>
  C7, as stated: a realm without a scheme gets \<open>https://\<close> in front, and a realm whose
  scheme is neither \<open>http\<close> nor \<open>https\<close> makes the token fetch fail with an
  Unauthorized error. For the realm \<open>ftp://auth.example.com/token\<close> the fetch fails, but
  with the plain \<open>Error\<close> that the source builds for the unsupported scheme, not with an
  \<open>UnauthorizedError\<close>. For the realm \<open>git+ssh://auth.example.com/token\<close>, whose scheme
  is neither \<open>http\<close> nor \<open>https\<close>, the fetch does not fail at all: the regular
  expression of the source sees no scheme in it, \<open>https://\<close> is put in front and the
  token of the answer is returned.
\<close>

theorem getToken_scheme_counterexamples:
  "getToken example_platform example_token_get (example_token_opts ''ftp://auth.example.com/token'')
     = TokenCallback (Inl (UnsupportedSchemeError ''ftp://auth.example.com/token'' ''ftp'')) \<and>
   \<not> failsUnauthorized
        (getToken example_platform example_token_get
           (example_token_opts ''ftp://auth.example.com/token'')) \<and>
   tokenUrl (example_token_opts ''git+ssh://auth.example.com/token'')
     = Inr ''https://git+ssh://auth.example.com/token'' \<and>
   getToken example_platform example_token_get
       (example_token_opts ''git+ssh://auth.example.com/token'')
     = TokenCallback (Inr ''t0k3n'')"
  by (simp add: example_token_eval)

text \<open>
  C7, amended. For every token fetch: when the realm does not start with one or more
  letters, digits or underscores followed by \<open>://\<close>, \<open>https://\<close> is prepended
  (\<open>http://\<close> if insecure), the fetch being the one for the realm so prefixed; when the
  realm starts with such a scheme and the scheme is neither \<open>http\<close> nor \<open>https\<close>, the
  fetch fails with the plain \<open>Error\<close> of the unsupported scheme, which is not an
  Unauthorized error.
\<close>

theorem getToken_scheme:
  "(\<not> (\<exists>w rest. w \<noteq> [] \<and>
          (\<forall>c \<in> set w. of_char c \<in> {48..57} \<union> {65..90} \<union> {95} \<union> {97..122 :: nat}) \<and>
          realm opts = w @ ''://'' @ rest) \<longrightarrow>
      tokenUrl opts =
        Inr ((if insecure opts = Some True then ''http://'' else ''https://'') @ realm opts) \<and>
      getToken P get opts =
        getToken P get
          (opts\<lparr>realm := (if insecure opts = Some True then ''http://'' else ''https://'') @
                           realm opts\<rparr>)) \<and>
   (sch \<noteq> [] \<and>
    (\<forall>c \<in> set sch. of_char c \<in> {48..57} \<union> {65..90} \<union> {95} \<union> {97..122 :: nat}) \<and>
    realm opts = sch @ ''://'' @ rest \<and> sch \<noteq> ''http'' \<and> sch \<noteq> ''https'' \<longrightarrow>
      getToken P get opts = TokenCallback (Inl (UnsupportedSchemeError (realm opts) sch)) \<and>
      \<not> failsUnauthorized (getToken P get opts))"
proof (intro conjI impI)
  assume "\<not> (\<exists>w rest. w \<noteq> [] \<and>
          (\<forall>c \<in> set w. of_char c \<in> {48..57} \<union> {65..90} \<union> {95} \<union> {97..122 :: nat}) \<and>
          realm opts = w @ ''://'' @ rest)"
  then have n: "scheme_match (realm opts) = None"
    unfolding has_scheme_iff by simp
  show u: "tokenUrl opts =
        Inr ((if insecure opts = Some True then ''http://'' else ''https://'') @ realm opts)"
    using n by (simp add: tokenUrl_def)
  let ?o = "opts\<lparr>realm := (if insecure opts = Some True then ''http://'' else ''https://'') @
                           realm opts\<rparr>"
  have "tokenUrl ?o = tokenUrl opts"
    unfolding u using scheme_match_http [of "realm opts"] scheme_match_https [of "realm opts"]
    by (simp add: tokenUrl_def)
  moreover have "tokenQuery ?o = tokenQuery opts" "tokenHeaders ?o = tokenHeaders opts"
    by (simp_all add: tokenQuery_def tokenHeaders_def)
  ultimately show "getToken P get opts = getToken P get ?o"
    by (simp only: getToken_def)
next
  assume a: "sch \<noteq> [] \<and>
    (\<forall>c \<in> set sch. of_char c \<in> {48..57} \<union> {65..90} \<union> {95} \<union> {97..122 :: nat}) \<and>
    realm opts = sch @ ''://'' @ rest \<and> sch \<noteq> ''http'' \<and> sch \<noteq> ''https''"
  then have "\<forall>c \<in> set sch. is_word_char c"
    unfolding word_characters by blast
  with a have "scheme_match (realm opts) = Some sch"
    unfolding scheme_match_iff by blast
  with a show g: "getToken P get opts = TokenCallback (Inl (UnsupportedSchemeError (realm opts) sch))"
    by (simp add: getToken_def tokenUrl_def)
  show "\<not> failsUnauthorized (getToken P get opts)"
    unfolding g by (simp add: failsUnauthorized_def)
qed

theorem getToken_scheme_witness:
  "tokenUrl (example_token_opts ''auth.docker.io/token'') = Inr ''https://auth.docker.io/token'' \<and>
   tokenUrl ((example_token_opts ''auth.docker.io/token'')\<lparr>insecure := Some True\<rparr>)
     = Inr ''http://auth.docker.io/token'' \<and>
   tokenUrl (example_token_opts ''git+ssh://auth.example.com/token'')
     = Inr ''https://git+ssh://auth.example.com/token'' \<and>
   getToken example_platform example_token_get (example_token_opts ''ftp://auth.example.com/token'')
     = TokenCallback (Inl (UnsupportedSchemeError ''ftp://auth.example.com/token'' ''ftp'')) \<and>
   \<not> failsUnauthorized
        (getToken example_platform example_token_get
           (example_token_opts ''ftp://auth.example.com/token''))"
  using
    getToken_scheme [of "example_token_opts ''auth.docker.io/token''" example_platform
      example_token_get "''ftp''" "''auth.example.com/token''"]
    getToken_scheme [of "(example_token_opts ''auth.docker.io/token'')\<lparr>insecure := Some True\<rparr>"
      example_platform example_token_get "''ftp''" "''auth.example.com/token''"]
    getToken_scheme [of "example_token_opts ''git+ssh://auth.example.com/token''" example_platform
      example_token_get "''ftp''" "''auth.example.com/token''"]
    getToken_scheme [of "example_token_opts ''ftp://auth.example.com/token''" example_platform
      example_token_get "''ftp''" "''auth.example.com/token''"]
  unfolding has_scheme_iff
  by (simp add: example_token_opts_def scheme_match_def is_word_char_def failsUnauthorized_def)

subsection \<open>The JWS extractor\<close>

lemma eq_char_of_iff: "c = char_of (n::nat) \<longleftrightarrow> take_bit 8 n = of_char c"
  by (metis char_of_eq_iff)

lemmas char_eval = char_of_eq_iff eq_char_of_iff

lemma checkFormatLength_Inr:
  "checkFormatLength P i v fl = Inr fl' \<Longrightarrow>
     \<exists>n. v = Number n \<and> fl' = Some n \<and> (fl \<noteq> None \<longrightarrow> fl = Some n)"
  by (cases v) (auto simp: checkFormatLength_def split: if_splits)

lemma checkFormatTail_Inr:
  "checkFormatTail P i v ft = Inr ft' \<Longrightarrow>
     \<exists>t. v = Some t \<and> t \<noteq> [] \<and> ft' = Some (base64url_decode P t) \<and> (ft \<noteq> None \<longrightarrow> ft = ft')"
  by (cases v) (auto simp: checkFormatTail_def truthy_def Let_def split: if_splits)

lemma jwsSig_index:
  "jwsSig P i sig = Inr s \<Longrightarrow> jwsSig P k sig = Inr s"
  by (auto simp: jwsSig_def Let_def split: option.splits sum.splits)

lemma jwsStep_Inr:
  assumes "jwsStep P i sig st = Inr st'"
  shows "\<exists>n t s. formatLengthOf P sig = Number n \<and> tailTextOf P sig = Some t \<and>
           st_formatLength st' = Some n \<and> st_formatTail st' = Some t \<and>
           (st_formatLength st \<noteq> None \<longrightarrow> st_formatLength st = Some n) \<and>
           (st_formatTail st \<noteq> None \<longrightarrow> st_formatTail st = Some t) \<and>
           jwsSig P 0 sig = Inr s \<and> st_signatures st' = st_signatures st @ [s]"
proof -
  from assms obtain ph fl' ft' s where
    p: "JSON_parse P (base64url_decode P (sig_protected sig)) = Parsed ph"
    and l: "checkFormatLength P i (ph_formatLength ph) (st_formatLength st) = Inr fl'"
    and t: "checkFormatTail P i (ph_formatTail ph) (st_formatTail st) = Inr ft'"
    and s: "jwsSig P i sig = Inr s"
    and st': "st' = \<lparr>st_formatLength = fl', st_formatTail = ft',
                     st_signatures = st_signatures st @ [s]\<rparr>"
    by (auto simp: jwsStep_def split: parsed.splits sum.splits)
  from checkFormatLength_Inr [OF l] obtain n where
    n: "ph_formatLength ph = Number n" "fl' = Some n"
       "st_formatLength st \<noteq> None \<longrightarrow> st_formatLength st = Some n" by blast
  from checkFormatTail_Inr [OF t] obtain b where
    b: "ph_formatTail ph = Some b" "ft' = Some (base64url_decode P b)"
       "st_formatTail st \<noteq> None \<longrightarrow> st_formatTail st = ft'" by blast
  from p n b st' jwsSig_index [OF s, of 0] show ?thesis
    by (simp add: formatLengthOf_def tailTextOf_def formatTailOf_def)
qed

lemma jwsLoop_Inr:
  "jwsLoop P i sigs st = Inr st' \<Longrightarrow> sigs \<noteq> [] \<Longrightarrow>
   \<exists>n t. st_formatLength st' = Some n \<and> st_formatTail st' = Some t \<and>
         (\<forall>sig \<in> set sigs. formatLengthOf P sig = Number n \<and> tailTextOf P sig = Some t) \<and>
         (st_formatLength st \<noteq> None \<longrightarrow> st_formatLength st = Some n) \<and>
         (st_formatTail st \<noteq> None \<longrightarrow> st_formatTail st = Some t)"
proof (induction sigs arbitrary: i st)
  case Nil
  then show ?case by simp
next
  case (Cons sig sigs)
  from Cons.prems obtain st1 where
    s1: "jwsStep P i sig st = Inr st1" and l: "jwsLoop P (Suc i) sigs st1 = Inr st'"
    by (auto split: sum.splits)
  from jwsStep_Inr [OF s1] obtain n t where
    h: "formatLengthOf P sig = Number n" "tailTextOf P sig = Some t"
       "st_formatLength st1 = Some n" "st_formatTail st1 = Some t"
       "st_formatLength st \<noteq> None \<longrightarrow> st_formatLength st = Some n"
       "st_formatTail st \<noteq> None \<longrightarrow> st_formatTail st = Some t"
    by blast
  show ?case
  proof (cases sigs)
    case Nil
    with l have "st' = st1" by simp
    with h Nil show ?thesis by simp
  next
    case (Cons a list)
    then have "sigs \<noteq> []" by simp
    from Cons.IH [OF l this] h show ?thesis by auto
  qed
qed




lemma toInt32_id: "- 2147483648 \<le> n \<Longrightarrow> n < 2147483648 \<Longrightarrow> toInt32 n = n"
  by (simp add: toInt32_def)

lemma buffer_slice_from_0:
  assumes "- 2147483648 \<le> n" "n < 2147483648"
  shows "buffer_slice body 0 (Some n) =
     take (nat (if 0 \<le> n then n else int (length body) + n)) body"
  using assms by (auto simp: buffer_slice_def clamp_def Let_def toInt32_id add.commute)

text \<open>
  What the extractor does give on success: every signature has the same \<open>formatLength\<close>
  and the same text of the tail, and the payload is the slice of the body followed by
  that text, which is the decoded tail itself when its bytes are valid UTF-8.
\<close>

lemma jwsFromManifest_payload:
  assumes "jwsFromManifest P m body = Inr j"
  shows "\<exists>n t. signatures m \<noteq> [] \<and>
           (\<forall>sig \<in> set (signatures m).
              formatLengthOf P sig = Number n \<and> tailTextOf P sig = Some t) \<and>
           payload j = buffer_slice body 0 (Some n) @ t"
proof -
  from assms obtain st t where
    l: "jwsLoop P 0 (signatures m) jws_init = Inr st"
    and t: "st_formatTail st = Some t"
    and j: "payload j = buffer_slice body 0 (st_formatLength st) @ t"
    by (auto simp: jwsFromManifest_def split: sum.splits option.splits)
  have ne: "signatures m \<noteq> []"
  proof
    assume "signatures m = []"
    with l have "st = jws_init" by simp
    with t show False by (simp add: jws_init_def)
  qed
  from jwsLoop_Inr [OF l ne] t obtain n where
    "st_formatLength st = Some n"
    "\<forall>sig \<in> set (signatures m). formatLengthOf P sig = Number n \<and> tailTextOf P sig = Some t"
    by auto
  with j ne show ?thesis by auto
qed

lemmas example_jws_eval =
  jwsFromManifest_def jwsStep_def jws_init_def example_manifest_def
  example_manifest_sig_def example_platform_def base64url_decode_def
  example_toString_def example_JSON_parse_def example_tail_def example_string_value_def
  example_stringify_def example_sprintf_def example_jwkToPem_def
  b64url_value_def is_digit_def decimal_def char_eval
  checkFormatLength_def checkFormatTail_def truthy_def jwsSig_def buffer_slice_def
  clamp_def toInt32_def restifyError_def thrown_def dec.simps dec_int_def
  formatLengthOf_def formatTailOf_def decodedTailOf_def tailTextOf_def
  protected_2_brace_def protected_2_ff_def protected_2_fe_def protected_2_bracket_def
  protected_2_percent_def protected_3_brace_def protected_no_length_def

text \<open>
  C3. The payload of an accepted manifest is to be the first \<open>formatLength\<close> bytes of
  the raw body followed by the bytes that \<open>formatTail\<close> encodes, byte for byte. The
  extractor appends the text that \<open>base64url.decode\<close> makes of those bytes, encoded
  again. For a signature whose protected header is
  \<open>{"formatLength":2,"formatTail":"_w"}\<close>, where the tail encodes the single byte
  \<open>ff\<close>, the manifest is accepted, and the payload is the first two bytes of the body
  followed by the three bytes \<open>ef bf bd\<close> of U+FFFD, not by \<open>ff\<close>.
\<close>

theorem jws_payload_tail_not_bytes:
  "formatLengthOf example_platform (example_manifest_sig protected_2_ff) = Number 2 \<and>
   decodedTailOf example_platform (example_manifest_sig protected_2_ff) = Some [CHR 0xFF] \<and>
   map_sum id payload
     (jwsFromManifest example_platform (example_manifest [protected_2_ff]) ''{},sigs}'')
     = Inr [CHR ''{'', CHR ''}'', CHR 0xEF, CHR 0xBF, CHR 0xBD]"
  by (simp add: example_jws_eval)

text \<open>
  C4. The extractor is to fail with InvalidContent whenever two signatures differ in the
  bytes that their \<open>formatTail\<close> encodes. Two signatures whose tails encode the bytes
  \<open>ff\<close> and \<open>fe\<close> are accepted, both tails being read as the text U+FFFD. Two
  signatures whose tails encode \<open>}\<close> and \<open>%s\<close> do make the extractor fail, but with the
  plain \<open>Error\<close> of the formatter and not with an \<open>InvalidContentError\<close>: the message,
  which holds the second tail already, is formatted a second time by the constructor of
  the error.
\<close>

theorem jws_conflicting_tails:
  "decodedTailOf example_platform (example_manifest_sig protected_2_ff) = Some [CHR 0xFF] \<and>
   decodedTailOf example_platform (example_manifest_sig protected_2_fe) = Some [CHR 0xFE] \<and>
   map_sum id payload
     (jwsFromManifest example_platform (example_manifest [protected_2_ff, protected_2_fe])
        ''{},sigs}'')
     = Inr [CHR ''{'', CHR ''}'', CHR 0xEF, CHR 0xBF, CHR 0xBD] \<and>
   decodedTailOf example_platform (example_manifest_sig protected_2_brace) = Some ''}'' \<and>
   decodedTailOf example_platform (example_manifest_sig protected_2_percent) = Some ''%s'' \<and>
   jwsFromManifest example_platform (example_manifest [protected_2_brace, protected_2_percent])
       ''{},sigs}''
     = Inl FormatError \<and>
   \<not> isInvalidContentError
       (jwsFromManifest example_platform
          (example_manifest [protected_2_brace, protected_2_percent]) ''{},sigs}'')"
  by (simp add: example_jws_eval isInvalidContentError_def)

text \<open>
  Where the text of the conflicting value has no conversion, the extractor fails with
  InvalidContent: on two different \<open>formatLength\<close>s, on two different tails, and on a
  protected header without \<open>formatLength\<close>.
\<close>

lemma jws_conflicts_detected:
  "jwsFromManifest example_platform (example_manifest [protected_2_brace, protected_3_brace])
       ''{},sigs}''
     = Inl (InvalidContentError (ConflictingFormatLength 1)) \<and>
   jwsFromManifest example_platform (example_manifest [protected_2_brace, protected_2_bracket])
       ''{},sigs}''
     = Inl (InvalidContentError (ConflictingFormatTail 1)) \<and>
   jwsFromManifest example_platform (example_manifest [protected_no_length]) ''{},sigs}''
     = Inl (InvalidContentError (InvalidFormatLength 0))"
  by (simp add: example_jws_eval)

subsection \<open>\<open>getManifest\<close>\<close>






subsection \<open>Blobs\<close>

lemma makeReq_issued:
  "makeReq P send n ress issued reqOpts = (out, issued') \<Longrightarrow>
   \<exists>rest. issued' = issued @ rest \<and> (rest \<noteq> [] \<longrightarrow> hd rest = reqOpts) \<and>
          (\<forall>r \<in> set (tl rest). req_headers r = None)"
proof (induction P send n ress issued reqOpts arbitrary: out issued' rule: makeReq.induct)
  case (1 P send numRedirs ress issued reqOpts)
  show ?case
  proof (cases "numRedirs \<ge> MAX_NUM_REDIRS")
    case True
    with "1.prems" show ?thesis by (simp add: makeReq.simps)
  next
    case False
    note lim = this
    show ?thesis
    proof (cases "send numRedirs reqOpts")
      case (ConnErr e)
      with lim "1.prems" show ?thesis by (auto simp: makeReq.simps)
    next
      case (Result err res)
      show ?thesis
      proof (cases "err = None \<and> (statusCode res = 302 \<or> statusCode res = 307) \<and>
                    headers res ''location'' \<noteq> None")
        case False
        with lim Result "1.prems" show ?thesis
          by (auto simp: makeReq.simps split: option.splits if_splits)
      next
        case True
        then obtain location where ok: "err = None"
          and st: "statusCode res = 302 \<or> statusCode res = 307"
          and l: "headers res ''location'' = Some location" by auto
        let ?next = "\<lparr>url = js_concat (protocol (url_parse P location)) @ ''//'' @
                           js_concat (host (url_parse P location)),
                     path = url_path (url_parse P location), req_headers = None\<rparr>"
        from lim Result ok st l "1.prems"
        have r: "makeReq P send (numRedirs + 1) (ress @ [res]) (issued @ [reqOpts]) ?next =
                   (out, issued')"
          by (simp add: makeReq.simps [of P send numRedirs] Let_def)
        from "1.IH" [OF lim Result ok st l refl r] obtain rest where
          rest: "issued' = (issued @ [reqOpts]) @ rest" "rest \<noteq> [] \<longrightarrow> hd rest = ?next"
                "\<forall>r \<in> set (tl rest). req_headers r = None" by blast
        have "\<forall>r \<in> set rest. req_headers r = None"
        proof (cases rest)
          case Nil
          then show ?thesis by simp
        next
          case (Cons a list)
          with rest show ?thesis by simp
        qed
        with rest(1) have "issued' = issued @ (reqOpts # rest) \<and>
          (reqOpts # rest \<noteq> [] \<longrightarrow> hd (reqOpts # rest) = reqOpts) \<and>
          (\<forall>r \<in> set (tl (reqOpts # rest)). req_headers r = None)" by simp
        then show ?thesis by blast
      qed
    qed
  qed
qed

lemma makeReq_length:
  "makeReq P send n ress issued reqOpts = (BlobCallback e ress', issued') \<Longrightarrow>
   length ress' \<le> length ress + (MAX_NUM_REDIRS - n)"
proof (induction P send n ress issued reqOpts arbitrary: e ress' issued' rule: makeReq.induct)
  case (1 P send numRedirs ress issued reqOpts)
  show ?case
  proof (cases "numRedirs \<ge> MAX_NUM_REDIRS")
    case True
    with "1.prems" show ?thesis by (simp add: makeReq.simps)
  next
    case False
    note lim = this
    show ?thesis
    proof (cases "send numRedirs reqOpts")
      case (ConnErr e)
      with lim "1.prems" show ?thesis by (auto simp: makeReq.simps)
    next
      case (Result err res)
      show ?thesis
      proof (cases "err = None \<and> (statusCode res = 302 \<or> statusCode res = 307) \<and>
                    headers res ''location'' \<noteq> None")
        case False
        with lim Result "1.prems" show ?thesis
          by (auto simp: makeReq.simps split: option.splits if_splits)
      next
        case True
        then obtain location where ok: "err = None"
          and st: "statusCode res = 302 \<or> statusCode res = 307"
          and l: "headers res ''location'' = Some location" by auto
        let ?next = "\<lparr>url = js_concat (protocol (url_parse P location)) @ ''//'' @
                           js_concat (host (url_parse P location)),
                     path = url_path (url_parse P location), req_headers = None\<rparr>"
        from lim Result ok st l "1.prems"
        have r: "makeReq P send (numRedirs + 1) (ress @ [res]) (issued @ [reqOpts]) ?next =
                   (BlobCallback e ress', issued')"
          by (simp add: makeReq.simps [of P send numRedirs] Let_def)
        from "1.IH" [OF lim Result ok st l refl r] lim show ?thesis by simp
      qed
    qed
  qed
qed


text \<open>
  C5. Of the requests that a blob HEAD or GET hands to the HTTP client, only the first
  one has the client's headers, the authorization among them; every later one, the
  request to a redirect target, has no headers of the client at all and so carries no
  \<open>Authorization\<close> header.
\<close>

theorem redirect_drops_authorization:
  assumes "headOrGetBlob P send loginErr c method digest = (out, issued)"
  shows "(\<forall>r \<in> set (drop 1 issued). req_headers r = None \<and> \<not> carries_authorization r) \<and>
         (issued \<noteq> [] \<longrightarrow> req_headers (hd issued) = Some (c_headers c))"
proof (cases loginErr)
  case (Some err)
  with assms show ?thesis by (simp add: headOrGetBlob_def)
next
  case None
  with assms obtain rest where
    "issued = [] @ rest"
    "rest \<noteq> [] \<longrightarrow> req_headers (hd rest) = Some (c_headers c)"
    "\<forall>r \<in> set (tl rest). req_headers r = None"
    unfolding headOrGetBlob_def by (auto dest!: makeReq_issued)
  then show ?thesis by (simp add: carries_authorization_def drop_Suc)
qed

lemmas example_blob_eval =
  headOrGetBlob_def makeReq.simps MAX_NUM_REDIRS_def example_redirects_def
  example_307_def example_200_def example_platform_def example_url_parse_def
  js_concat_def example_client_def

theorem redirect_drops_authorization_witness:
  "headOrGetBlob example_platform (example_redirects 2) None example_client ''get'' ''sha256:abc''
     = (BlobCallback None [example_307, example_307, example_200],
        [\<lparr>url = ''https://registry-1.docker.io'',
          path = Some ''/v2/library/busybox/blobs/sha256:abc'',
          req_headers = Some \<lparr>authorization = Some ''Bearer t0k3n''\<rparr>\<rparr>,
         \<lparr>url = ''https://cdn.example.com'', path = Some ''/blob'', req_headers = None\<rparr>,
         \<lparr>url = ''https://cdn.example.com'', path = Some ''/blob'', req_headers = None\<rparr>]) \<and>
   \<not> carries_authorization
       \<lparr>url = ''https://cdn.example.com'', path = Some ''/blob'', req_headers = None\<rparr>"
proof -
  have h: "headOrGetBlob example_platform (example_redirects 2) None example_client ''get''
       ''sha256:abc''
     = (BlobCallback None [example_307, example_307, example_200],
        [\<lparr>url = ''https://registry-1.docker.io'',
          path = Some ''/v2/library/busybox/blobs/sha256:abc'',
          req_headers = Some \<lparr>authorization = Some ''Bearer t0k3n''\<rparr>\<rparr>,
         \<lparr>url = ''https://cdn.example.com'', path = Some ''/blob'', req_headers = None\<rparr>,
         \<lparr>url = ''https://cdn.example.com'', path = Some ''/blob'', req_headers = None\<rparr>])"
    by (simp add: example_blob_eval)
  from redirect_drops_authorization [OF h] h show ?thesis by simp
qed

text \<open>
  The counter \<open>numRedirs\<close> counts the requests, the first one included, so the chain of
  responses has at most three entries.
\<close>

lemma headOrGetBlob_chain_length:
  assumes "headOrGetBlob P send loginErr c method digest = (BlobCallback e ress, issued)"
  shows "length ress \<le> 3"
proof (cases loginErr)
  case (Some err)
  with assms show ?thesis by (auto simp: headOrGetBlob_def)
next
  case None
  with assms show ?thesis
    unfolding headOrGetBlob_def by (auto dest!: makeReq_length simp: MAX_NUM_REDIRS_def)
qed

text \<open>
  C1. The claim lets a blob HEAD or GET follow up to 3 redirects and return up to 4
  responses, as the loop of the specification does. Against a registry that redirects
  three times and then serves the blob, \<open>headBlob\<close> and \<open>createBlobReadStream\<close> both
  stop at the third redirect with the Download error of the maximum number of redirects,
  after two redirects followed and with three responses in the chain, where the loop of
  the specification follows the three redirects and returns the four responses.
\<close>

theorem headBlob_third_redirect_fails:
  "fst (headBlob example_platform (example_redirects 3) None example_client ''sha256:abc'')
     = BlobCallback (Some (DownloadError MaxRedirects)) [example_307, example_307, example_307] \<and>
   createBlobReadStream example_platform (example_redirects 3) None example_client ''sha256:abc''
     = StreamCallback (Some (DownloadError MaxRedirects)) None
         (Some [example_307, example_307, example_307]) \<and>
   spec_headOrGet example_platform (example_redirects 3 ''head'') 0 []
       \<lparr>url = c_url example_client,
        path = Some ''/v2/library/busybox/blobs/sha256:abc'',
        req_headers = Some (c_headers example_client)\<rparr>
     = BlobCallback None [example_307, example_307, example_307, example_200]"
  by (simp add: headBlob_def createBlobReadStream_def spec_headOrGet.simps example_blob_eval)

lemma foldl_onData:
  "foldl onData s chunks =
     s\<lparr>numBytes := numBytes s + length (concat chunks),
       dcdInfo := (case dcdInfo s of
                     None \<Rightarrow> None
                   | Some d \<Rightarrow> Some (d\<lparr>hash := hash d @ concat chunks\<rparr>))\<rparr>"
proof (induction chunks arbitrary: s)
  case Nil
  then show ?case by (simp split: option.splits)
next
  case (Cons chunk chunks)
  show ?case
    unfolding foldl_Cons Cons.IH
    by (simp add: onData_def hashUpdate_def split: option.splits)
qed


lemma parseDockerContentDigest_fresh:
  assumes "parseDockerContentDigest P dcd = Inr d"
  shows "hash d = [] \<and> dcd = Some (raw d) \<and>
         algorithm d = takeWhile (\<lambda>c. c \<noteq> CHR '':'') (raw d) \<and>
         expectedDigest d = drop 1 (dropWhile (\<lambda>c. c \<noteq> CHR '':'') (raw d))"
proof (cases dcd)
  case None
  with assms show ?thesis by (simp add: parseDockerContentDigest_def truthy_def)
next
  case (Some h)
  with assms have "CHR '':'' \<in> set h"
    by (auto simp: parseDockerContentDigest_def strsplit2_def Let_def
        split: if_splits option.splits)
  with assms Some show ?thesis
    by (auto simp: parseDockerContentDigest_def strsplit2_def truthy_def Let_def
        split: if_splits option.splits)
qed

lemma openStream_fresh:
  assumes "openStream P digest ress = StreamCallback None (Some s) r"
  shows "numBytes s = 0 \<and> ress \<noteq> [] \<and> stream_res s = last ress \<and> r = Some ress \<and>
         (dcdInfo s = None \<longleftrightarrow> \<not> truthy (headers (hd ress) ''docker-content-digest'')) \<and>
         (\<forall>d. dcdInfo s = Some d \<longrightarrow>
            hash d = [] \<and> raw d = digest \<and>
            algorithm d = takeWhile (\<lambda>c. c \<noteq> CHR '':'') digest \<and>
            expectedDigest d = drop 1 (dropWhile (\<lambda>c. c \<noteq> CHR '':'') digest))"
proof (cases ress)
  case Nil
  with assms show ?thesis by (simp add: openStream_def)
next
  case (Cons first rest)
  show ?thesis
  proof (cases "truthy (headers first ''docker-content-digest'')")
    case False
    with assms Cons show ?thesis by (auto simp: openStream_def Let_def)
  next
    case True
    with assms Cons obtain d where
      p: "parseDockerContentDigest P (headers first ''docker-content-digest'') = Inr d"
      and r: "raw d = digest"
      and s: "s = \<lparr>stream_res = last ress, numBytes = 0, dcdInfo = Some d\<rparr>"
      and rr: "r = Some ress"
      by (auto simp: openStream_def Let_def cbError_def restifyError_def
          split: sum.splits if_splits option.splits)
    from parseDockerContentDigest_fresh [OF p] r s rr Cons True show ?thesis by auto
  qed
qed

lemma createBlobReadStream_fresh:
  assumes "createBlobReadStream P send loginErr c digest =
             StreamCallback None (Some s) (Some ress)"
  shows "numBytes s = 0" and "stream_res s = last ress"
    and "dcdInfo s = None \<longleftrightarrow> \<not> truthy (headers (hd ress) ''docker-content-digest'')"
    and "dcdInfo s = Some d \<Longrightarrow> hash d = []"
    and "dcdInfo s = Some d \<Longrightarrow> algorithm d = takeWhile (\<lambda>c. c \<noteq> CHR '':'') digest"
    and "dcdInfo s = Some d \<Longrightarrow>
           expectedDigest d = drop 1 (dropWhile (\<lambda>c. c \<noteq> CHR '':'') digest)"
proof -
  from assms obtain ress' where
    o: "openStream P digest ress' = StreamCallback None (Some s) (Some ress)"
    by (auto simp: createBlobReadStream_def split: blob_outcome.splits option.splits)
  note F = openStream_fresh [OF o]
  from F have "ress' = ress" by simp
  with F show "numBytes s = 0" and "stream_res s = last ress"
    and "dcdInfo s = None \<longleftrightarrow> \<not> truthy (headers (hd ress) ''docker-content-digest'')"
    by simp_all
  from F show "dcdInfo s = Some d \<Longrightarrow> hash d = []"
    and "dcdInfo s = Some d \<Longrightarrow> algorithm d = takeWhile (\<lambda>c. c \<noteq> CHR '':'') digest"
    and "dcdInfo s = Some d \<Longrightarrow>
           expectedDigest d = drop 1 (dropWhile (\<lambda>c. c \<noteq> CHR '':'') digest)"
    by simp_all
qed

text \<open>
  C6. For a stream that \<open>createBlobReadStream\<close> returned with the chain \<open>ress\<close> of
  responses, once the chunks are read and the stream ends: if the last response of the
  chain has a \<open>Content-Length\<close> header whose value is a number and the number of bytes
  received differs from it, a Download error with both numbers is emitted; otherwise, if
  the first response had a \<open>Docker-Content-Digest\<close> header, from which the hasher was
  made, and the hex digest of the bytes received, in the algorithm that the given digest
  names, differs from the hex of that digest, a BadDigest error is emitted; otherwise no
  error is emitted.
\<close>

theorem blob_stream_end:
  assumes "createBlobReadStream P send loginErr c digest =
             StreamCallback None (Some s) (Some ress)"
  shows "(headers (last ress) ''content-length'' = Some v \<and> js_Number P v = Number n \<and>
          n \<noteq> int (length (concat chunks)) \<longrightarrow>
            consume P s chunks =
              Some (DownloadError (UnexpectedSize n (length (concat chunks))))) \<and>
         (\<not> (\<exists>v n. headers (last ress) ''content-length'' = Some v \<and> js_Number P v = Number n \<and>
                   n \<noteq> int (length (concat chunks))) \<longrightarrow>
            (truthy (headers (hd ress) ''docker-content-digest'') \<and>
             digest_hex P (takeWhile (\<lambda>c. c \<noteq> CHR '':'') digest) (concat chunks) \<noteq>
               drop 1 (dropWhile (\<lambda>c. c \<noteq> CHR '':'') digest) \<longrightarrow>
               consume P s chunks = Some (BadDigestError DcdMismatch)) \<and>
            (\<not> truthy (headers (hd ress) ''docker-content-digest'') \<or>
             digest_hex P (takeWhile (\<lambda>c. c \<noteq> CHR '':'') digest) (concat chunks) =
               drop 1 (dropWhile (\<lambda>c. c \<noteq> CHR '':'') digest) \<longrightarrow>
               consume P s chunks = None))"
proof -
  note F = createBlobReadStream_fresh [OF assms]
  note z = F(1) and l = F(2) and dn = F(3)
  let ?s = "foldl onData s chunks"
  have cl: "contentLength P ?s =
      (case headers (last ress) ''content-length'' of
         None \<Rightarrow> NotANumber ''NaN'' | Some v \<Rightarrow> js_Number P v)"
    by (simp add: foldl_onData contentLength_def l)
  have nb: "numBytes ?s = length (concat chunks)"
    using z by (simp add: foldl_onData)
  have dd: "dcdInfo ?s = (case dcdInfo s of None \<Rightarrow> None
                          | Some d \<Rightarrow> Some (d\<lparr>hash := concat chunks\<rparr>))"
    using F(4) by (simp add: foldl_onData split: option.splits)
  show ?thesis
  proof (cases "dcdInfo s")
    case None
    with dn have nt: "\<not> truthy (headers (hd ress) ''docker-content-digest'')" by simp
    show ?thesis
    proof (cases "headers (last ress) ''content-length''")
      case None
      with \<open>dcdInfo s = None\<close> nt show ?thesis
        by (simp add: consume_def onEnd_def Let_def cl nb dd)
    next
      case (Some w)
      with \<open>dcdInfo s = None\<close> nt show ?thesis
        by (cases "js_Number P w") (auto simp: consume_def onEnd_def Let_def cl nb dd)
    qed
  next
    case (Some d)
    with dn have t: "truthy (headers (hd ress) ''docker-content-digest'')" by simp
    note a = F(5) [OF Some] and e = F(6) [OF Some]
    show ?thesis
    proof (cases "headers (last ress) ''content-length''")
      case None
      with Some t a e show ?thesis
        by (auto simp: consume_def onEnd_def Let_def cl nb dd hashDigest_def)
    next
      case (Some w)
      with \<open>dcdInfo s = Some d\<close> t a e show ?thesis
        by (cases "js_Number P w")
           (auto simp: consume_def onEnd_def Let_def cl nb dd hashDigest_def)
    qed
  qed
qed

theorem blob_stream_end_witness:
  "createBlobReadStream example_platform (example_redirects 1) None example_client ''sha256:abc''
     = StreamCallback None (Some example_stream) (Some [example_307, example_200]) \<and>
   consume example_platform example_stream [''ab''] = Some (DownloadError (UnexpectedSize 3 2)) \<and>
   consume example_platform example_stream [''ab'', ''d''] = Some (BadDigestError DcdMismatch) \<and>
   consume example_platform example_stream [''ab'', ''c''] = None \<and>
   createBlobReadStream example_platform example_direct None example_client ''sha256:abc''
     = StreamCallback None (Some example_stream_5) (Some [example_200_5]) \<and>
   consume example_platform example_stream_5 [''ab'', ''c'']
     = Some (DownloadError (UnexpectedSize 5 3))"
proof -
  have h: "createBlobReadStream example_platform (example_redirects 1) None example_client
       ''sha256:abc''
     = StreamCallback None (Some example_stream) (Some [example_307, example_200])"
    by (simp add: createBlobReadStream_def openStream_def parseDockerContentDigest_def
        strsplit2_def truthy_def example_stream_def example_blob_eval)
  have h5: "createBlobReadStream example_platform example_direct None example_client
       ''sha256:abc''
     = StreamCallback None (Some example_stream_5) (Some [example_200_5])"
    by (simp add: createBlobReadStream_def openStream_def parseDockerContentDigest_def
        strsplit2_def truthy_def example_stream_5_def example_direct_def example_200_5_def
        example_blob_eval)
  have n3: "js_Number example_platform ''3'' = Number 3"
    and n5: "js_Number example_platform ''5'' = Number 5"
    by (simp_all add: example_platform_def decimal_def is_digit_def)
  have g: "digest_hex example_platform a x = x" for a x
    by (simp add: example_platform_def)
  from blob_stream_end [OF h, of "''3''" 3 "[''ab'']"]
    blob_stream_end [OF h, of "''3''" 3 "[''ab'', ''d'']"]
    blob_stream_end [OF h, of "''3''" 3 "[''ab'', ''c'']"]
    blob_stream_end [OF h5, of "''5''" 5 "[''ab'', ''c'']"] h h5 n3 n5 g
  show ?thesis
    by (simp add: example_307_def example_200_def example_200_5_def truthy_def)
qed

end
